theory Spec2Isabelle
  imports Main "HOL-Library.Word"
begin

section \<open>Bytes and the DataView helper (sensor\_command.py)\<close>

type_synonym byte = "8 word"
type_synonym bytes = "byte list"

text \<open>
  Python \<open>str\<close> values are modelled as \<^typ>\<open>string\<close>, one \<^typ>\<open>char\<close> per byte of the
  UTF-8 encoding, so \<open>s.encode('utf-8')\<close> maps every character to its byte.
\<close>

definition encode :: "string \<Rightarrow> bytes" where
  "encode s = map (\<lambda>c. of_nat (of_char c)) s"

text \<open>
  \<open>DataView.get_uint_8/16/32\<close>: little-endian reads at \<open>start_index\<close>. Reading past the
  end of the array raises \<open>IndexError\<close> in the source; that is the value \<open>None\<close> here.
\<close>

definition get_uint_8 :: "bytes \<Rightarrow> nat \<Rightarrow> nat option" where
  "get_uint_8 a i = (if i < length a then Some (unat (a ! i)) else None)"

definition get_uint_16 :: "bytes \<Rightarrow> nat \<Rightarrow> nat option" where
  "get_uint_16 a i =
     (if i + 1 < length a then Some (unat (a ! i) + 256 * unat (a ! (i + 1))) else None)"

definition get_uint_32 :: "bytes \<Rightarrow> nat \<Rightarrow> nat option" where
  "get_uint_32 a i =
     (if i + 3 < length a
      then Some (unat (a ! i) + 256 * unat (a ! (i + 1)) + 65536 * unat (a ! (i + 2))
                 + 16777216 * unat (a ! (i + 3)))
      else None)"

section \<open>GSP constants\<close>

definition GSP_CMD_HELLO :: byte where "GSP_CMD_HELLO = 0"
definition GSP_CMD_SUBSCRIBE :: byte where "GSP_CMD_SUBSCRIBE = 1"
definition GSP_CMD_UNSUBSCRIBE :: byte where "GSP_CMD_UNSUBSCRIBE = 2"
definition GSP_CMD_FETCH_LOG :: byte where "GSP_CMD_FETCH_LOG = 3"
definition GSP_CMD_GET :: byte where "GSP_CMD_GET = 4"
definition GSP_CMD_CLEAR_LOGBOOK :: byte where "GSP_CMD_CLEAR_LOGBOOK = 5"
definition GSP_CMD_PUT_DATALOGGER_CONFIG :: byte where "GSP_CMD_PUT_DATALOGGER_CONFIG = 6"
definition GSP_CMD_PUT_SYSTEMMODE :: byte where "GSP_CMD_PUT_SYSTEMMODE = 7"
definition GSP_CMD_PUT_UTCTIME :: byte where "GSP_CMD_PUT_UTCTIME = 8"
definition GSP_CMD_PUT_DATALOGGER_STATE :: byte where "GSP_CMD_PUT_DATALOGGER_STATE = 9"

definition GSP_RESP_COMMAND_RESPONSE :: nat where "GSP_RESP_COMMAND_RESPONSE = 1"
definition GSP_RESP_DATA :: nat where "GSP_RESP_DATA = 2"
definition GSP_RESP_DATA_PART2 :: nat where "GSP_RESP_DATA_PART2 = 3"

lemmas gsp_defs =
  GSP_CMD_HELLO_def GSP_CMD_SUBSCRIBE_def GSP_CMD_UNSUBSCRIBE_def GSP_CMD_FETCH_LOG_def
  GSP_CMD_GET_def GSP_CMD_CLEAR_LOGBOOK_def GSP_CMD_PUT_DATALOGGER_CONFIG_def
  GSP_CMD_PUT_SYSTEMMODE_def GSP_CMD_PUT_UTCTIME_def GSP_CMD_PUT_DATALOGGER_STATE_def
  GSP_RESP_COMMAND_RESPONSE_def GSP_RESP_DATA_def GSP_RESP_DATA_PART2_def

section \<open>Inbound notifications\<close>

text \<open>
  A Python value that is either \<open>None\<close> or an integer (the \<open>status_code\<close> entry of a
  response dictionary).
\<close>

datatype py_int = PyNone | PyInt nat

text \<open>
  The dictionary \<open>response_data\<close> built by \<open>_notification_handler\<close>. A key that the handler
  may leave out is an \<open>option\<close> field: \<open>None\<close> is "key absent". The \<open>parsed\<close> entry (a
  DataView over \<open>raw_data\<close>) carries no further information and is left out.
\<close>

record response =
  response_code :: nat
  reference :: nat
  raw_data :: bytes
  status_code :: "py_int option"
  command_data :: "bytes option"
  data_payload :: "bytes option"

text \<open>
  \<open>SensorCommand._notification_handler\<close>. The first argument is the attribute
  \<open>self.hello_ref\<close> (\<open>None\<close> while \<open>hasattr(self, "hello_ref")\<close> is false). The result is the
  dictionary put on the response queue; an exception inside the handler is caught and
  logged by the source and nothing is queued, which is the result \<open>None\<close>.
\<close>

definition notification_handler :: "nat option \<Rightarrow> bytes \<Rightarrow> response option" where
  "notification_handler href data =
     (case get_uint_8 data 0 of None \<Rightarrow> None | Some rc \<Rightarrow>
      (case get_uint_8 data 1 of None \<Rightarrow> None | Some rf \<Rightarrow>
       (let response_data = \<lparr>response_code = rc, reference = rf, raw_data = data,
                              status_code = None, command_data = None, data_payload = None\<rparr>
        in if rc = GSP_RESP_COMMAND_RESPONSE then
             (if length data \<ge> 4 then
                (if href = Some rf then
                   Some (response_data\<lparr>status_code := Some (PyInt 200),
                           command_data := Some (if length data > 2 then drop 2 data else [])\<rparr>)
                 else
                   (case get_uint_16 data 2 of None \<Rightarrow> None | Some st \<Rightarrow>
                      Some (response_data\<lparr>status_code := Some (PyInt st),
                              command_data := Some (if length data > 4 then drop 4 data else [])\<rparr>)))
              else Some (response_data\<lparr>status_code := Some PyNone, command_data := Some []\<rparr>))
           else if rc = GSP_RESP_DATA \<or> rc = GSP_RESP_DATA_PART2 then
             Some (response_data\<lparr>data_payload := Some (if length data > 2 then drop 2 data else [])\<rparr>)
           else Some response_data)))"


section \<open>Strings, files and results\<close>

text \<open>\<open>s.endswith(suffix)\<close>.\<close>

definition endswith :: "string \<Rightarrow> string \<Rightarrow> bool" where
  "endswith s suffix =
     (length suffix \<le> length s \<and> drop (length s - length suffix) s = suffix)"

text \<open>\<open>str(n)\<close> for a non-negative integer, as the f-strings of the file names use it.\<close>

fun str_nat :: "nat \<Rightarrow> string" where
  "str_nat n =
     (if n < 10 then [char_of (48 + n)]
      else str_nat (n div 10) @ [char_of (48 + n mod 10)])"

declare str_nat.simps [simp del]

text \<open>
  \<open>n.to_bytes(k, byteorder='little')\<close>; the \<open>OverflowError\<close> of a value that does not fit
  is \<open>None\<close>.
\<close>

definition to_bytes :: "nat \<Rightarrow> nat \<Rightarrow> bytes option" where
  "to_bytes n k =
     (if n < 256 ^ k then Some (map (\<lambda>i. of_nat (n div 256 ^ i)) [0..<k]) else None)"

text \<open>Truthiness of an optional string or list (\<open>None\<close> and the empty value are false).\<close>

definition truthy :: "'a list option \<Rightarrow> bool" where
  "truthy v = (case v of None \<Rightarrow> False | Some xs \<Rightarrow> xs \<noteq> [])"

text \<open>
  \<open>f.seek(offset); f.write(bs)\<close> on a binary file with contents \<open>f\<close>, for a non-empty
  \<open>bs\<close>: a seek past the end followed by a write fills the gap with zero bytes; the
  bytes from \<open>offset\<close> on are overwritten and the file grows as far as the write reaches.
\<close>

definition file_write :: "bytes \<Rightarrow> nat \<Rightarrow> bytes \<Rightarrow> bytes" where
  "file_write f offset bs =
     take offset (f @ replicate (offset - length f) 0) @ bs @ drop (offset + length bs) f"

text \<open>The exceptions of the source that the model distinguishes.\<close>

datatype exn =
    DeviceNotFound    \<comment> \<open>\<open>RuntimeError("Device ending with ... not found")\<close>\<close>
  | ConnectFailed     \<comment> \<open>\<open>RuntimeError("Failed to connect to ...")\<close>\<close>
  | NotConnected      \<comment> \<open>\<open>RuntimeError("Not connected to device")\<close>\<close>
  | CommandTimeout    \<comment> \<open>\<open>TimeoutError("Command timeout after ...s")\<close>\<close>
  | OverflowError     \<comment> \<open>\<open>int.to_bytes\<close> of a value that does not fit\<close>
  | AttributeError    \<comment> \<open>\<open>None.append\<close>\<close>
  | EOFError          \<comment> \<open>\<open>input()\<close> at end of input\<close>
  | IndexError        \<comment> \<open>a read past the end of a DataView\<close>
  | TypeError         \<comment> \<open>\<open>list(None)\<close>\<close>

text \<open>The \<open>error\<close> texts of the result dictionaries, by their format string.\<close>

datatype err =
    UnexpectedResponseCode "nat option"  \<comment> \<open>\<open>f'Unexpected response code: {...}'\<close>\<close>
  | UnexpectedFetchResponse nat  \<comment> \<open>\<open>f'Unexpected response to FETCH_LOG command: {...}'\<close>\<close>
  | FetchFailed py_int           \<comment> \<open>\<open>f'FETCH_LOG command failed with status {status_code}'\<close>\<close>
  | GetStateFailed py_int        \<comment> \<open>\<open>f'GET DLSTATE command failed with status {status_code}'\<close>\<close>
  | Raised exn                   \<comment> \<open>\<open>str(e)\<close> of a caught exception\<close>

text \<open>
  The result dictionaries of the operations. An \<open>option\<close> field is a key that may be
  absent. The entries that only echo an argument or the raw notification (\<open>raw_data\<close>,
  \<open>resource_path\<close>, \<open>reference\<close>, \<open>system_mode\<close>, \<open>utc_time\<close>, \<open>message\<close>) are left out.
\<close>

record result =
  success :: bool
  res_status_code :: "py_int option"
  error :: "err option"
  filename :: "string option"
  res_size :: "nat option"
  res_log_id :: "nat option"
  res_data :: "bytes option"
  files_fetched :: "string list option"

definition empty_result :: result where
  "empty_result = \<lparr>success = False, res_status_code = None, error = None, filename = None,
                    res_size = None, res_log_id = None, res_data = None, files_fetched = None\<rparr>"

definition failure :: "err \<Rightarrow> result" where
  "failure e = empty_result\<lparr>error := Some e\<rparr>"

text \<open>
  The dictionary \<open>retval\<close> of \<open>get_status\<close>; \<open>success\<close> itself may be absent there. The five
  strings parsed from the HELLO body are left out.
\<close>

record status_result =
  st_success :: "bool option"
  protocol_version :: "nat option"
  dlstate :: "nat option"
  st_error :: "err option"
  st_status_code :: "py_int option"

section \<open>The session and its environment\<close>

text \<open>
  What one attempt to reach a device meets: no matching advertisement within the scan
  time, a device that is found but refuses the connection, or a device with its advertised
  name and its script. The script lists, for each command written to the device in turn,
  the notifications that arrive after that write in time to be read (before the reader's
  timeout expires and before the next command is written).
\<close>

datatype radio_event = NoDevice | Refused string | Present string "bytes list list"

text \<open>
  The state threaded through the program: the environment (the lines typed at the
  keyboard, each a list of Unicode code points as \<open>input\<close> returns it; devices in range,
  clock, files), the list object bound to \<open>args.path\<close> (which \<open>configure_device\<close>
  appends to in place), a trace of what was written to the write characteristic and of the
  statuses reported through \<open>logging.error\<close>, and the fields of the current \<open>SensorCommand\<close>
  object.
\<close>

record world =
  stdin :: "nat list list"
  radio :: "radio_event list"
  clock :: nat
  files :: "string \<Rightarrow> bytes option"
  args_path :: "string list option"
  wire :: "bytes list"
  errors_logged :: "py_int list"
  is_connected :: bool
  hello_ref :: "nat option"
  response_queue :: "response list"
  device_name :: string
  peer :: "bytes list list"

text \<open>A notification from the device: the handler runs and queues its dictionary.\<close>

definition notify :: "bytes \<Rightarrow> world \<Rightarrow> world" where
  "notify data w =
     (case notification_handler (hello_ref w) data of
        None \<Rightarrow> w
      | Some r \<Rightarrow> w\<lparr>response_queue := response_queue w @ [r]\<rparr>)"

text \<open>
  \<open>client.write_gatt_char\<close>: the command goes out, and the notifications the script gives
  for it come in.
\<close>

definition write_gatt_char :: "bytes \<Rightarrow> world \<Rightarrow> world" where
  "write_gatt_char command_bytes w =
     (let w1 = w\<lparr>wire := wire w @ [command_bytes]\<rparr>
      in case peer w1 of
           [] \<Rightarrow> w1
         | batch # rest \<Rightarrow> fold notify batch (w1\<lparr>peer := rest\<rparr>))"

text \<open>
  \<open>SensorCommand.send_command\<close>: pending responses are dropped, the command is written,
  and the first queued dictionary is the response; an empty queue is the timeout.
\<close>

definition send_command :: "bytes \<Rightarrow> world \<Rightarrow> (exn + response) \<times> world" where
  "send_command command_bytes w =
     (if \<not> is_connected w then (Inl NotConnected, w)
      else
        (let w1 = write_gatt_char command_bytes (w\<lparr>response_queue := []\<rparr>)
         in case response_queue w1 of
              [] \<Rightarrow> (Inl CommandTimeout, w1)
            | response # rest \<Rightarrow> (Inr response, w1\<lparr>response_queue := rest\<rparr>)))"

text \<open>
  The shape shared by the results of \<open>configure_device\<close>, \<open>start_logging\<close>, \<open>stop_logging\<close>,
  \<open>set_system_mode\<close>, \<open>set_utc_time\<close> and \<open>erase_memory\<close>.
\<close>

definition get_status_code :: "response \<Rightarrow> py_int" where
  "get_status_code r = (case status_code r of None \<Rightarrow> PyInt 0 | Some s \<Rightarrow> s)"

definition command_result :: "response \<Rightarrow> result" where
  "command_result r =
     (if response_code r = GSP_RESP_COMMAND_RESPONSE then
        empty_result\<lparr>success := (get_status_code r = PyInt 200),
                     res_status_code := Some (get_status_code r)\<rparr>
      else failure (UnexpectedResponseCode (Some (response_code r))))"

definition simple_command :: "bytes \<Rightarrow> world \<Rightarrow> (exn + result) \<times> world" where
  "simple_command command w =
     (case send_command command w of
        (Inl e, w1) \<Rightarrow> (Inl e, w1)
      | (Inr r, w1) \<Rightarrow> (Inr (command_result r), w1))"

definition SensorCommand_configure_device :: "bytes \<Rightarrow> world \<Rightarrow> (exn + result) \<times> world" where
  "SensorCommand_configure_device config_data w =
     simple_command ([GSP_CMD_PUT_DATALOGGER_CONFIG, 102] @ config_data) w"

definition SensorCommand_start_logging :: "world \<Rightarrow> (exn + result) \<times> world" where
  "SensorCommand_start_logging w = simple_command [GSP_CMD_PUT_DATALOGGER_STATE, 103, 3] w"

definition SensorCommand_stop_logging :: "world \<Rightarrow> (exn + result) \<times> world" where
  "SensorCommand_stop_logging w = simple_command [GSP_CMD_PUT_DATALOGGER_STATE, 104, 2] w"

definition SensorCommand_erase_memory :: "world \<Rightarrow> (exn + result) \<times> world" where
  "SensorCommand_erase_memory w = simple_command [GSP_CMD_CLEAR_LOGBOOK, 106] w"

definition set_system_mode :: "byte \<Rightarrow> world \<Rightarrow> (exn + result) \<times> world" where
  "set_system_mode system_mode w = simple_command [GSP_CMD_PUT_SYSTEMMODE, 107, system_mode] w"

definition set_utc_time :: "nat \<Rightarrow> world \<Rightarrow> (exn + result) \<times> world" where
  "set_utc_time utc_time_us w =
     (case to_bytes utc_time_us 8 of
        None \<Rightarrow> (Inl OverflowError, w)
      | Some time_bytes \<Rightarrow> simple_command ([GSP_CMD_PUT_UTCTIME, 108] @ time_bytes) w)"

text \<open>\<open>get_resource\<close> and \<open>subscribe_to_resource\<close>: the path is sent NUL-terminated.\<close>

definition get_resource_command :: "string \<Rightarrow> bytes" where
  "get_resource_command resource_path = [GSP_CMD_GET, 105] @ (encode resource_path @ [0])"

definition get_resource :: "string \<Rightarrow> world \<Rightarrow> (exn + result) \<times> world" where
  "get_resource resource_path w =
     (case send_command (get_resource_command resource_path) w of
        (Inl e, w1) \<Rightarrow> (Inl e, w1)
      | (Inr r, w1) \<Rightarrow>
          (Inr (if response_code r = GSP_RESP_COMMAND_RESPONSE
                then (command_result r)\<lparr>res_data :=
                        Some (case command_data r of None \<Rightarrow> [] | Some d \<Rightarrow> d)\<rparr>
                else command_result r), w1))"

definition subscribe_command :: "string \<Rightarrow> byte \<Rightarrow> bytes" where
  "subscribe_command resource_path rf = [GSP_CMD_SUBSCRIBE, rf] @ (encode resource_path @ [0])"

definition subscribe_to_resource :: "string \<Rightarrow> byte \<Rightarrow> world \<Rightarrow> (exn + result) \<times> world" where
  "subscribe_to_resource resource_path rf w = simple_command (subscribe_command resource_path rf) w"


section \<open>Status (HELLO, then GET of the DataLogger state)\<close>

definition hello_command :: bytes where
  "hello_command = [GSP_CMD_HELLO, 100]"

text \<open>The GET command as \<open>get_status\<close> builds it.\<close>

definition dlstate_command :: bytes where
  "dlstate_command = [GSP_CMD_GET, 101] @ encode ''/Mem/DataLogger/State''"

definition empty_status :: status_result where
  "empty_status = \<lparr>st_success = None, protocol_version = None, dlstate = None,
                    st_error = None, st_status_code = None\<rparr>"

text \<open>The first half of \<open>get_status\<close>: what the HELLO response adds to \<open>retval\<close>.\<close>

definition hello_retval :: "response \<Rightarrow> status_result" where
  "hello_retval response =
     (if response_code response = GSP_RESP_COMMAND_RESPONSE
         \<and> get_status_code response = PyInt 200 then
        (let command_data = (case command_data response of None \<Rightarrow> [] | Some d \<Rightarrow> d)
         in if length command_data \<ge> 5
            then empty_status\<lparr>st_success := Some True,
                               protocol_version := get_uint_8 command_data 0\<rparr>
            else empty_status)
      else empty_status)"

text \<open>
  The second half: what the response to the GET adds. The error text of the last branch
  quotes the response code of the HELLO response (the variable \<open>response\<close>), as the source
  does.
\<close>

definition dlstate_retval :: "response \<Rightarrow> response \<Rightarrow> status_result \<Rightarrow> status_result" where
  "dlstate_retval response dlstate_response retval =
     (if response_code dlstate_response = GSP_RESP_COMMAND_RESPONSE then
        (if get_status_code dlstate_response = PyInt 200 then
           (let command_data =
                  (case command_data dlstate_response of None \<Rightarrow> [] | Some d \<Rightarrow> d)
            in if length command_data \<ge> 1
               then retval\<lparr>dlstate := get_uint_8 command_data 0\<rparr>
               else retval)
         else retval\<lparr>st_success := Some False,
                       st_error := Some (GetStateFailed (get_status_code dlstate_response)),
                       st_status_code := Some (get_status_code dlstate_response)\<rparr>)
      else retval\<lparr>st_success := Some False,
                    st_error := Some (UnexpectedResponseCode (Some (response_code response)))\<rparr>)"

definition get_status :: "world \<Rightarrow> (exn + status_result) \<times> world" where
  "get_status w =
     (case send_command hello_command (w\<lparr>hello_ref := Some 100\<rparr>) of
        (Inl e, w1) \<Rightarrow> (Inl e, w1)
      | (Inr response, w1) \<Rightarrow>
          (case send_command dlstate_command w1 of
             (Inl e, w2) \<Rightarrow> (Inl e, w2)
           | (Inr dlstate_response, w2) \<Rightarrow>
               (Inr (dlstate_retval response dlstate_response (hello_retval response)), w2)))"

section \<open>Fetching a log\<close>

text \<open>
  The streaming loop of \<open>SensorCommand.fetch_data\<close>, on the dictionaries still to come from
  the response queue: file contents and \<open>last_offset\<close> go in and come out, with the rest of
  the queue. An empty queue is the 30 s timeout of \<open>wait_for\<close>, which ends the loop. The third
  component of the result is an exception raised inside the loop.
\<close>

fun fetch_loop ::
  "response list \<Rightarrow> bytes \<Rightarrow> nat \<Rightarrow> bytes \<times> nat \<times> exn option \<times> response list" where
  "fetch_loop [] f last_offset = (f, last_offset, None, [])"
| "fetch_loop (data_response # queue) f last_offset =
     (if response_code data_response = GSP_RESP_DATA
         \<or> response_code data_response = GSP_RESP_DATA_PART2 then
        (let data_payload = (case data_payload data_response of None \<Rightarrow> [] | Some p \<Rightarrow> p)
         in if length data_payload \<ge> 4 then
              (case get_uint_32 data_payload 0 of
                 None \<Rightarrow> (f, last_offset, Some IndexError, queue)
               | Some offset \<Rightarrow>
                   (let bytes_to_write = drop 4 data_payload
                    in if length bytes_to_write > 0
                       then fetch_loop queue (file_write f offset bytes_to_write) offset
                       else (f, offset, None, queue)))
            else (f, last_offset, None, queue))
      else fetch_loop queue f last_offset)"

definition default_filename :: "nat \<Rightarrow> string \<Rightarrow> string" where
  "default_filename log_id name = ''log_'' @ str_nat log_id @ ''_'' @ name @ ''.sbem''"

definition fetch_filename :: "nat \<Rightarrow> string option \<Rightarrow> string \<Rightarrow> string" where
  "fetch_filename log_id output_file name =
     (case output_file of
        None \<Rightarrow> default_filename log_id name
      | Some name' \<Rightarrow>
          if name' = [] then default_filename log_id name
          else if \<not> endswith name' ''.sbem'' then name' @ ''.sbem''
          else name')"

definition fetch_command_bytes :: "bytes \<Rightarrow> bytes" where
  "fetch_command_bytes log_id_bytes = [GSP_CMD_FETCH_LOG, 101] @ log_id_bytes"

text \<open>
  \<open>SensorCommand.fetch_data\<close>. The conversion of \<open>log_id\<close> stands before the \<open>try\<close>, so its
  \<open>OverflowError\<close> leaves the function; every exception after it is caught and becomes a
  failure result. Creating the directory and opening the file are taken to succeed.
\<close>

definition SensorCommand_fetch_data ::
  "nat \<Rightarrow> string option \<Rightarrow> world \<Rightarrow> (exn + result) \<times> world" where
  "SensorCommand_fetch_data log_id output_file w =
     (let filename = fetch_filename log_id output_file (device_name w)
      in case to_bytes log_id 4 of
           None \<Rightarrow> (Inl OverflowError, w)
         | Some log_id_bytes \<Rightarrow>
             (case send_command (fetch_command_bytes log_id_bytes) w of
                (Inl e, w1) \<Rightarrow> (Inr (failure (Raised e)), w1)
              | (Inr init_response, w1) \<Rightarrow>
                  if response_code init_response \<noteq> GSP_RESP_COMMAND_RESPONSE then
                    (Inr (failure (UnexpectedFetchResponse (response_code init_response))), w1)
                  else if get_status_code init_response \<noteq> PyInt 200 then
                    (Inr ((failure (FetchFailed (get_status_code init_response)))
                            \<lparr>res_status_code := Some (get_status_code init_response)\<rparr>), w1)
                  else
                    (case fetch_loop (response_queue w1) [] 0 of
                       (f, last_offset, raised, queue) \<Rightarrow>
                         (let w2 = w1\<lparr>response_queue := queue,
                                      files := (files w1)(filename := Some f)\<rparr>
                          in case raised of
                               Some e \<Rightarrow> (Inr (failure (Raised e)), w2)
                             | None \<Rightarrow>
                                 (Inr (empty_result\<lparr>success := True,
                                         filename := Some filename,
                                         res_size := Some last_offset,
                                         res_log_id := Some log_id\<rparr>), w2)))))"

section \<open>Connecting\<close>

text \<open>
  \<open>_discover_and_connect\<close> on a fresh \<open>SensorCommand\<close>: the scan, the connection and, when
  \<open>set_time\<close> holds, PUT\_UTCTIME with the clock's microseconds. Every exception after the
  scan is re-raised as "Failed to connect".
\<close>

definition fresh_sensor :: "string \<Rightarrow> bytes list list \<Rightarrow> world \<Rightarrow> world" where
  "fresh_sensor name script w =
     w\<lparr>is_connected := True, hello_ref := None, response_queue := [],
       device_name := name, peer := script\<rparr>"

definition discover_and_connect :: "string \<Rightarrow> bool \<Rightarrow> world \<Rightarrow> exn option \<times> world" where
  "discover_and_connect end_of_serial set_time w =
     (let w0 = w\<lparr>is_connected := False, hello_ref := None, response_queue := [], peer := []\<rparr>
      in case radio w of
           [] \<Rightarrow> (Some DeviceNotFound, w0)
         | NoDevice # later \<Rightarrow> (Some DeviceNotFound, w0\<lparr>radio := later\<rparr>)
         | Refused name # later \<Rightarrow>
             (if name \<noteq> [] \<and> endswith name end_of_serial
              then (Some ConnectFailed, w0\<lparr>radio := later, device_name := name\<rparr>)
              else (Some DeviceNotFound, w0\<lparr>radio := later\<rparr>))
         | Present name script # later \<Rightarrow>
             (if name \<noteq> [] \<and> endswith name end_of_serial then
                (let w1 = fresh_sensor name script (w\<lparr>radio := later\<rparr>)
                 in if set_time then
                      (case set_utc_time (clock w1) w1 of
                         (Inl e, w2) \<Rightarrow> (Some ConnectFailed, w2)
                       | (Inr r, w2) \<Rightarrow> (None, w2))
                    else (None, w1))
              else (Some DeviceNotFound, w0\<lparr>radio := later\<rparr>)))"

text \<open>
  \<open>async with SensorCommand(serial, set_time) as sensor: body\<close>. When entering fails the
  body does not run; otherwise the sensor is disconnected after the body, whether it
  returned or raised.
\<close>

definition with_sensor ::
  "string \<Rightarrow> bool \<Rightarrow> (world \<Rightarrow> (exn + 'a) \<times> world) \<Rightarrow> world \<Rightarrow> (exn + 'a) \<times> world" where
  "with_sensor serial set_time body w =
     (case discover_and_connect serial set_time w of
        (Some e, w1) \<Rightarrow> (Inl e, w1)
      | (None, w1) \<Rightarrow>
          (case body w1 of (r, w2) \<Rightarrow> (r, w2\<lparr>is_connected := False\<rparr>)))"

text \<open>The \<open>except Exception as e: return {'success': False, 'error': str(e)}\<close> of the tool.\<close>

definition catch_all :: "(exn + result) \<times> world \<Rightarrow> result \<times> world" where
  "catch_all rw = (case rw of (Inl e, w) \<Rightarrow> (failure (Raised e), w) | (Inr r, w) \<Rightarrow> (r, w))"


section \<open>The operations of datalogger\_tool.py\<close>

definition fetch_status :: "string \<Rightarrow> world \<Rightarrow> (exn + status_result) \<times> world" where
  "fetch_status serial w = with_sensor serial True get_status w"

definition TIME_DETAILED :: string where
  "TIME_DETAILED = ''/Time/Detailed''"

text \<open>The loop that fills \<open>config_data\<close>: every path with a NUL byte after it.\<close>

definition config_bytes :: "string list \<Rightarrow> bytes" where
  "config_bytes paths = concat (map (\<lambda>path. encode path @ [0]) paths)"

text \<open>
  The body of \<open>configure_device\<close> inside the \<open>with\<close>. \<open>paths.append\<close> extends a list object
  in place. When \<open>paths\<close> is false and \<open>args.path\<close> is not, that object is the list bound to
  \<open>args.path\<close>, which the state keeps between calls. Otherwise it is the caller's own list;
  no caller in the repository hands the same list object to two calls, so the state does
  not keep it. \<open>None.append\<close> raises.
\<close>

definition configure_body :: "string list option \<Rightarrow> world \<Rightarrow> (exn + result) \<times> world" where
  "configure_body paths w =
     (if \<not> truthy paths \<and> truthy (args_path w) then
        (case args_path w of
           None \<Rightarrow> (Inl AttributeError, w)
         | Some shared \<Rightarrow>
             SensorCommand_configure_device (config_bytes (shared @ [TIME_DETAILED]))
               (w\<lparr>args_path := Some (shared @ [TIME_DETAILED])\<rparr>))
      else
        (case paths of
           None \<Rightarrow> (Inl AttributeError, w)
         | Some own \<Rightarrow>
             SensorCommand_configure_device (config_bytes (own @ [TIME_DETAILED])) w))"

definition configure_device :: "string \<Rightarrow> string list option \<Rightarrow> world \<Rightarrow> result \<times> world" where
  "configure_device serial paths w = catch_all (with_sensor serial True (configure_body paths) w)"

definition start_logging :: "string \<Rightarrow> world \<Rightarrow> result \<times> world" where
  "start_logging serial w = catch_all (with_sensor serial True SensorCommand_start_logging w)"

definition stop_logging :: "string \<Rightarrow> world \<Rightarrow> result \<times> world" where
  "stop_logging serial w = catch_all (with_sensor serial True SensorCommand_stop_logging w)"

definition erase_memory :: "string \<Rightarrow> world \<Rightarrow> result \<times> world" where
  "erase_memory serial w = catch_all (with_sensor serial False SensorCommand_erase_memory w)"

text \<open>The \<open>output_file\<close> that the fetch loop of the tool chooses for a log.\<close>

definition movesense_log :: "string \<Rightarrow> nat \<Rightarrow> string \<Rightarrow> string" where
  "movesense_log dir log_id serial =
     dir @ ''/Movesense_log_'' @ str_nat log_id @ ''_'' @ serial @ ''.sbem''"

definition fleet_output_file ::
  "string \<Rightarrow> string option \<Rightarrow> string option \<Rightarrow> nat \<Rightarrow> string option" where
  "fleet_output_file serial args_output output_dir log_id =
     (case (if truthy output_dir then output_dir
            else if truthy args_output then args_output else None) of
        None \<Rightarrow> None
      | Some dir \<Rightarrow> Some (movesense_log dir log_id serial))"

text \<open>
  What the loop does with a failed result before it breaks: a result that carries a
  status other than 404 is reported through \<open>logging.error\<close>; any other failed result is
  taken as "no more logs".
\<close>

definition log_fetch_failure :: "result \<Rightarrow> world \<Rightarrow> world" where
  "log_fetch_failure r w =
     (case res_status_code r of
        None \<Rightarrow> w
      | Some st \<Rightarrow> if st \<noteq> PyInt 404 then w\<lparr>errors_logged := errors_logged w @ [st]\<rparr> else w)"


text \<open>
  A command that gets its response has used up the script's entry for it; this is what
  ends the \<open>while True\<close> loop over the logs.
\<close>

lemma fold_notify_peer: "peer (fold notify batch w) = peer w"
  by (induction batch arbitrary: w) (auto simp: notify_def split: option.splits)

lemma send_command_peer:
  "send_command c w = (Inr r, w1) \<Longrightarrow> length (peer w1) < length (peer w)"
  by (auto simp: send_command_def write_gatt_char_def Let_def fold_notify_peer
           split: if_splits list.splits)

lemma fetch_data_peer:
  "SensorCommand_fetch_data log_id output_file w = (Inr r, w1) \<Longrightarrow> success r
     \<Longrightarrow> length (peer w1) < length (peer w)"
  by (auto simp: SensorCommand_fetch_data_def Let_def failure_def empty_result_def
           split: option.splits prod.splits sum.splits if_splits dest: send_command_peer)

text \<open>
  The \<open>while True\<close> loop of \<open>fetch_data\<close> in datalogger\_tool.py, from \<open>log_id\<close> on: the
  files fetched so far go in; the result is the list of all files fetched, or the exception
  that left the loop.
\<close>

function fetch_logs ::
  "string \<Rightarrow> string option \<Rightarrow> string option \<Rightarrow> nat \<Rightarrow> string list \<Rightarrow> world
     \<Rightarrow> (exn + string list) \<times> world" where
  "fetch_logs serial args_output output_dir log_id fetched_files w =
     (case SensorCommand_fetch_data log_id
             (fleet_output_file serial args_output output_dir log_id) w of
        (Inl e, w1) \<Rightarrow> (Inl e, w1)
      | (Inr r, w1) \<Rightarrow>
          if \<not> success r then (Inr fetched_files, log_fetch_failure r w1)
          else fetch_logs serial args_output output_dir (log_id + 1)
                 (fetched_files @
                    (case filename r of None \<Rightarrow> [] | Some f \<Rightarrow> if f \<noteq> [] then [f] else []))
                 w1)"
  by pat_completeness auto
termination
  by (relation "measure (\<lambda>(serial, args_output, output_dir, log_id, fetched, w). length (peer w))")
     (auto dest: fetch_data_peer [OF sym])

declare fetch_logs.simps [simp del]

text \<open>
  \<open>fetch_data\<close> of datalogger\_tool.py: all logs, then the reset to system mode 5, on one
  connection without time sync.
\<close>

definition fetch_body ::
  "string \<Rightarrow> string option \<Rightarrow> string option \<Rightarrow> world \<Rightarrow> (exn + result) \<times> world" where
  "fetch_body serial args_output output_dir w =
     (case fetch_logs serial args_output output_dir 1 [] w of
        (Inl e, w1) \<Rightarrow> (Inl e, w1)
      | (Inr fetched_files, w1) \<Rightarrow>
          (case set_system_mode 5 w1 of
             (Inl e, w2) \<Rightarrow> (Inl e, w2)
           | (Inr r, w2) \<Rightarrow>
               (Inr (empty_result\<lparr>success := True, files_fetched := Some fetched_files\<rparr>), w2)))"

definition fetch_data ::
  "string \<Rightarrow> string option \<Rightarrow> string option \<Rightarrow> world \<Rightarrow> result \<times> world" where
  "fetch_data serial args_output output_dir w =
     catch_all (with_sensor serial False (fetch_body serial args_output output_dir) w)"

section \<open>The command line\<close>

text \<open>
  What \<open>input\<close> returns is a Python \<open>str\<close>: a list of Unicode code points. \<open>codepoints\<close>
  gives the code points of a literal of ASCII characters.
\<close>

definition codepoints :: "string \<Rightarrow> nat list" where
  "codepoints s = map of_char s"

text \<open>
  \<open>str.isspace\<close> of one character: the 29 code points that Python counts as white space,
  which are TAB to CR, the separators 28 to 31, the space, U+0085, U+00A0, U+1680, U+2000
  to U+200A, U+2028, U+2029, U+202F, U+205F and U+3000. \<open>str.strip()\<close> removes the
  characters that satisfy it from both ends.
\<close>

definition isspace :: "nat \<Rightarrow> bool" where
  "isspace c =
     (c \<in> set [9, 10, 11, 12, 13, 28, 29, 30, 31, 32, 133, 160, 5760]
      \<or> (8192 \<le> c \<and> c \<le> 8202)
      \<or> c \<in> set [8232, 8233, 8239, 8287, 12288])"

definition strip :: "nat list \<Rightarrow> nat list" where
  "strip s = rev (dropWhile isspace (rev (dropWhile isspace s)))"

text \<open>
  \<open>str.lower()\<close> follows the case mappings of Unicode, which are no part of this theory:
  the functions that call it take it as their parameter \<open>lower\<close>, and what is proved of
  them holds for every such function. \<open>ascii_lower\<close> is what \<open>str.lower()\<close> does to a text
  of ASCII characters; the examples use it on such texts.
\<close>

definition ascii_lower :: "nat list \<Rightarrow> nat list" where
  "ascii_lower s = map (\<lambda>c. if 65 \<le> c \<and> c \<le> 90 then c + 32 else c) s"

text \<open>
  The command functions take the serial and the state and return what
  \<open>all_sensors_command\<close> looks at: an exception, or the returned value's truth.
  \<open>status_command\<close> has no \<open>return\<close>; its \<open>None\<close> counts as false.
\<close>

definition status_command :: "string \<Rightarrow> world \<Rightarrow> (exn + bool) \<times> world" where
  "status_command serial w = (case fetch_status serial w of (r, w1) \<Rightarrow> (Inr False, w1))"

definition config_command :: "string \<Rightarrow> world \<Rightarrow> (exn + bool) \<times> world" where
  "config_command serial w =
     (case configure_device serial None w of (r, w1) \<Rightarrow> (Inr (success r), w1))"

definition start_command :: "string \<Rightarrow> world \<Rightarrow> (exn + bool) \<times> world" where
  "start_command serial w = (case start_logging serial w of (r, w1) \<Rightarrow> (Inr (success r), w1))"

definition stop_command :: "string \<Rightarrow> world \<Rightarrow> (exn + bool) \<times> world" where
  "stop_command serial w = (case stop_logging serial w of (r, w1) \<Rightarrow> (Inr (success r), w1))"

definition fetch_command :: "string \<Rightarrow> string option \<Rightarrow> world \<Rightarrow> (exn + bool) \<times> world" where
  "fetch_command serial args_output w =
     (case fetch_data serial args_output None w of (r, w1) \<Rightarrow> (Inr (success r), w1))"

text \<open>
  \<open>erasemem_command\<close>. Without \<open>force\<close> one line is read from the keyboard (\<open>input\<close> raises
  \<open>EOFError\<close> when there is none). The line is stripped and lower-cased, and lower-cased
  once more for the test; unless the outcome is \<open>yes\<close> or \<open>y\<close> the function returns \<open>True\<close> at
  once.
\<close>

definition erasemem_command ::
  "(nat list \<Rightarrow> nat list) \<Rightarrow> string \<Rightarrow> bool \<Rightarrow> world \<Rightarrow> (exn + bool) \<times> world" where
  "erasemem_command lower serial force w =
     (if \<not> force then
        (case stdin w of
           [] \<Rightarrow> (Inl EOFError, w)
         | line # later \<Rightarrow>
             (let response = lower (strip line)
              in if lower response \<notin> set [codepoints ''yes'', codepoints ''y'']
                 then (Inr True, w\<lparr>stdin := later\<rparr>)
                 else (case erase_memory serial (w\<lparr>stdin := later\<rparr>) of
                         (r, w1) \<Rightarrow> (Inr (success r), w1))))
      else (case erase_memory serial w of (r, w1) \<Rightarrow> (Inr (success r), w1)))"

text \<open>
  One pass of \<open>all_sensors_command\<close> over the serials: the serials whose command returned
  something false or raised are collected for the next pass.
\<close>

fun run_serials ::
  "(string \<Rightarrow> world \<Rightarrow> (exn + bool) \<times> world) \<Rightarrow> string list \<Rightarrow> world
     \<Rightarrow> string list \<times> world" where
  "run_serials command_func [] w = ([], w)"
| "run_serials command_func (serial # serials) w =
     (case command_func serial w of
        (r, w1) \<Rightarrow>
          (case run_serials command_func serials w1 of
             (next_serials, w2) \<Rightarrow>
               ((if r = Inr True then next_serials else serial # next_serials), w2)))"

text \<open>
  The \<open>while retry_count <= retrys\<close> loop. The function returns the serials still failing
  when the loop ends (the source keeps them in \<open>serials\<close> and returns nothing).
\<close>

function all_sensors_loop ::
  "(string \<Rightarrow> world \<Rightarrow> (exn + bool) \<times> world) \<Rightarrow> nat \<Rightarrow> nat \<Rightarrow> string list \<Rightarrow> world
     \<Rightarrow> string list \<times> world" where
  "all_sensors_loop command_func retrys retry_count serials w =
     (if retry_count \<le> retrys then
        (case run_serials command_func serials w of
           (next_serials, w1) \<Rightarrow>
             if next_serials = [] then ([], w1)
             else all_sensors_loop command_func retrys (retry_count + 1) next_serials w1)
      else (serials, w))"
  by pat_completeness auto
termination
  by (relation "measure (\<lambda>(command_func, retrys, retry_count, serials, w). retrys + 1 - retry_count)")
     auto

declare all_sensors_loop.simps [simp del]

definition all_sensors_command ::
  "(string \<Rightarrow> world \<Rightarrow> (exn + bool) \<times> world) \<Rightarrow> string list \<Rightarrow> nat \<Rightarrow> world
     \<Rightarrow> string list \<times> world" where
  "all_sensors_command command_func serial_numbers retrys w =
     all_sensors_loop command_func retrys 0 serial_numbers w"

datatype command = Status | Config | Start | Stop | Fetch | Erasemem

text \<open>
  The parsed arguments. \<open>args.path\<close> is part of the state (see above); \<open>args.command\<close> is
  \<open>None\<close> when no sub-command was given, \<open>args.serial_numbers\<close> when \<open>-s\<close> was not.
\<close>

record args =
  args_command :: "command option"
  args_serial_numbers :: "string list option"
  args_output :: "string option"
  args_force :: bool

definition commands ::
  "(nat list \<Rightarrow> nat list) \<Rightarrow> args \<Rightarrow> command \<Rightarrow> string \<Rightarrow> world \<Rightarrow> (exn + bool) \<times> world" where
  "commands lower a c =
     (case c of
        Status \<Rightarrow> status_command
      | Config \<Rightarrow> config_command
      | Start \<Rightarrow> start_command
      | Stop \<Rightarrow> stop_command
      | Fetch \<Rightarrow> (\<lambda>serial. fetch_command serial (args_output a))
      | Erasemem \<Rightarrow> (\<lambda>serial. erasemem_command lower serial (args_force a)))"

text \<open>
  \<open>main\<close> after argument parsing, with the exit status of the process: \<open>sys.exit(1)\<close> when
  there is no command, status 1 for the uncaught \<open>TypeError\<close> of \<open>list(None)\<close>, and status 0
  when \<open>main\<close> returns. \<open>lower\<close> is \<open>str.lower\<close>, for \<open>erasemem_command\<close>.
\<close>

definition main :: "(nat list \<Rightarrow> nat list) \<Rightarrow> args \<Rightarrow> world \<Rightarrow> nat \<times> world" where
  "main lower a w =
     (case args_command a of
        None \<Rightarrow> (1, w)
      | Some c \<Rightarrow>
          (let retrys = (if c = Status then 0 else 10)
           in case args_serial_numbers a of
                None \<Rightarrow> (1, w)
              | Some serials \<Rightarrow>
                  (case all_sensors_command (commands lower a c) serials retrys w of
                     (failing, w1) \<Rightarrow> (0, w1))))"


text \<open>
  A state to start examples from: nothing typed, no device in range, no file, nothing
  written yet, no sensor connected.
\<close>

definition idle_world :: world where
  "idle_world =
     \<lparr>stdin = [], radio = [], clock = 0, files = (\<lambda>n. None), args_path = None, wire = [],
      errors_logged = [], is_connected = False, hello_ref = None, response_queue = [],
      device_name = [], peer = []\<rparr>"

section \<open>Vocabulary of the theorems\<close>

text \<open>
  The dictionaries that the handler queues from the notifications which the script gives
  for the next command, and the state after a command was written (the trace extended,
  the script advanced).
\<close>

definition arrivals :: "world \<Rightarrow> response list" where
  "arrivals w =
     (case peer w of
        [] \<Rightarrow> []
      | batch # later \<Rightarrow> List.map_filter (notification_handler (hello_ref w)) batch)"

definition after_write :: "bytes \<Rightarrow> world \<Rightarrow> world" where
  "after_write command_bytes w = w\<lparr>wire := wire w @ [command_bytes], peer := tl (peer w)\<rparr>"

text \<open>
  The frames of a stream, as the loop of \<open>fetch_data\<close> reads them: a data frame is a
  dictionary with response code 2 or 3; its offset is the little-endian word in the first
  four bytes of the payload and its bytes are the rest; a data frame with at most four
  bytes of payload ends the stream. \<open>received\<close> are the frames the loop takes from the
  queue, \<open>writes\<close> the pairs of offset and bytes it writes, \<open>offsets_seen\<close> the offsets it
  assigns to \<open>last_offset\<close>, all in the order of arrival.
\<close>

definition is_data :: "response \<Rightarrow> bool" where
  "is_data r = (response_code r = GSP_RESP_DATA \<or> response_code r = GSP_RESP_DATA_PART2)"

definition payload :: "response \<Rightarrow> bytes" where
  "payload r = (case data_payload r of None \<Rightarrow> [] | Some p \<Rightarrow> p)"

definition frame_offset :: "response \<Rightarrow> nat" where
  "frame_offset r =
     unat (payload r ! 0) + 256 * unat (payload r ! 1) + 65536 * unat (payload r ! 2)
       + 16777216 * unat (payload r ! 3)"

definition frame_bytes :: "response \<Rightarrow> bytes" where
  "frame_bytes r = drop 4 (payload r)"

definition ends_stream :: "response \<Rightarrow> bool" where
  "ends_stream r = (is_data r \<and> length (payload r) \<le> 4)"

definition received :: "response list \<Rightarrow> response list" where
  "received q = takeWhile (\<lambda>r. \<not> ends_stream r) q @ take 1 (dropWhile (\<lambda>r. \<not> ends_stream r) q)"

definition offsets_seen :: "response list \<Rightarrow> nat list" where
  "offsets_seen q = map frame_offset (filter (\<lambda>r. is_data r \<and> 4 \<le> length (payload r)) (received q))"

definition writes :: "response list \<Rightarrow> (nat \<times> bytes) list" where
  "writes q = map (\<lambda>r. (frame_offset r, frame_bytes r))
                (filter is_data (takeWhile (\<lambda>r. \<not> ends_stream r) q))"

text \<open>
  A file after a list of writes; the highest \<open>offset + length bytes\<close> among the writes;
  and the byte that the most recent write covering position \<open>i\<close> put there (zero when
  no write covers it).
\<close>

definition replay :: "(nat \<times> bytes) list \<Rightarrow> bytes \<Rightarrow> bytes" where
  "replay ws f = fold (\<lambda>(offset, bs) f. file_write f offset bs) ws f"

definition extent :: "(nat \<times> bytes) list \<Rightarrow> nat" where
  "extent ws = fold max (map (\<lambda>(offset, bs). offset + length bs) ws) 0"

fun written_at :: "(nat \<times> bytes) list \<Rightarrow> nat \<Rightarrow> byte" where
  "written_at [] i = 0"
| "written_at ((offset, bs) # earlier) i =
     (if offset \<le> i \<and> i < offset + length bs then bs ! (i - offset) else written_at earlier i)"

definition last_written :: "(nat \<times> bytes) list \<Rightarrow> nat \<Rightarrow> byte" where
  "last_written ws i = written_at (rev ws) i"

text \<open>
  The notifications of the mock device in test\_datalogger\_tool.py (a 200 response, the
  data packet \<open>test data\<close> at offset 0, the empty packet at offset 9), the responses
  \<open>01 65 94 01\<close> (404) and \<open>01 65 91 01\<close> (401), and a connected sensor with a given script.
\<close>

definition sensor_with :: "bytes list list \<Rightarrow> world" where
  "sensor_with script =
     idle_world\<lparr>is_connected := True, device_name := ''Movesense 000455'', peer := script\<rparr>"

definition ok_response :: "byte \<Rightarrow> bytes" where
  "ok_response rf = [1, rf, 200, 0]"

definition not_found_response :: bytes where
  "not_found_response = [1, 101, 148, 1]"

definition data_packet :: bytes where
  "data_packet = [2, 101, 0, 0, 0, 0] @ encode ''test data'' @ [0]"

definition end_packet :: bytes where
  "end_packet = [2, 101, 9, 0, 0, 0]"

definition system_mode_command :: bytes where
  "system_mode_command = [GSP_CMD_PUT_SYSTEMMODE, 107, 5]"

definition unauthorized_response :: bytes where
  "unauthorized_response = [1, 101, 145, 1]"

text \<open>
  PUT\_UTCTIME at clock 0, and the state of \<open>config -s 000455 000456 -p /Meas/ECG/200/mV\<close>
  with two devices in range that answer 200 to PUT\_UTCTIME and to PUT\_DATALOGGER\_CONFIG.
\<close>

definition utc_command :: bytes where
  "utc_command = [GSP_CMD_PUT_UTCTIME, 108, 0, 0, 0, 0, 0, 0, 0, 0]"

definition two_devices_to_configure :: world where
  "two_devices_to_configure =
     idle_world\<lparr>args_path := Some [''/Meas/ECG/200/mV''],
       radio := [Present ''Movesense 000455'' [[ok_response 108], [ok_response 102]],
                 Present ''Movesense 000456'' [[ok_response 108], [ok_response 102]]]\<rparr>"

section \<open>The status word of a command response\<close>

text \<open>
  C5, as the code has it. A notification of at least two bytes whose first byte is 1 is
  queued as a command response. When it has at least four bytes and its reference is the
  one registered for HELLO, no status word is read: the status is 200 and the body starts
  at byte 2; with any other reference the status is the little-endian 16-bit word at bytes
  2 and 3 and the body starts at byte 4. When it has fewer than four bytes the status is
  \<open>None\<close> and the body is empty, whatever the reference.
\<close>

theorem command_response_status_word:
  assumes "2 \<le> length data" and "unat (data ! 0) = GSP_RESP_COMMAND_RESPONSE"
  shows "notification_handler href data =
     Some \<lparr>response_code = GSP_RESP_COMMAND_RESPONSE, reference = unat (data ! 1),
           raw_data = data,
           status_code =
             Some (if length data < 4 then PyNone
                   else if href = Some (unat (data ! 1)) then PyInt 200
                   else PyInt (unat (data ! 2) + 256 * unat (data ! 3))),
           command_data =
             Some (if length data < 4 then []
                   else if href = Some (unat (data ! 1)) then drop 2 data
                   else drop 4 data),
           data_payload = None\<rparr>"
  using assms
  by (auto simp: notification_handler_def get_uint_8_def get_uint_16_def Let_def)

text \<open>
  The theorem at a HELLO response, at the response \<open>01 65 94 01\<close> (status 404) and at a
  three-byte response.
\<close>

theorem command_response_status_word_witness:
  "notification_handler (Some 100) [1, 100, 1, 50, 52, 0] =
     Some \<lparr>response_code = 1, reference = 100, raw_data = [1, 100, 1, 50, 52, 0],
           status_code = Some (PyInt 200), command_data = Some [1, 50, 52, 0],
           data_payload = None\<rparr>
   \<and> notification_handler (Some 100) [1, 101, 148, 1] =
     Some \<lparr>response_code = 1, reference = 101, raw_data = [1, 101, 148, 1],
           status_code = Some (PyInt 404), command_data = Some [],
           data_payload = None\<rparr>
   \<and> notification_handler (Some 100) [1, 101, 200] =
     Some \<lparr>response_code = 1, reference = 101, raw_data = [1, 101, 200],
           status_code = Some PyNone, command_data = Some [],
           data_payload = None\<rparr>"
  using command_response_status_word [of "[1, 100, 1, 50, 52, 0]" "Some 100"]
        command_response_status_word [of "[1, 101, 148, 1]" "Some 100"]
        command_response_status_word [of "[1, 101, 200]" "Some 100"]
  by (simp add: GSP_RESP_COMMAND_RESPONSE_def)

text \<open>
  C5 as the specification words it fails at a HELLO response that carries the protocol
  version byte only (\<open>01 64 01\<close>, reference 100 registered): the status is \<open>None\<close>, not 200,
  and the body is empty, not the bytes from byte 2 on.
\<close>

theorem hello_short_response_counterexample:
  "map_option status_code (notification_handler (Some 100) [1, 100, 1]) = Some (Some PyNone)
   \<and> map_option command_data (notification_handler (Some 100) [1, 100, 1]) = Some (Some [])
   \<and> \<not> (map_option status_code (notification_handler (Some 100) [1, 100, 1])
            = Some (Some (PyInt 200))
          \<and> map_option command_data (notification_handler (Some 100) [1, 100, 1])
            = Some (Some (drop 2 [1, 100, 1])))"
  by (simp add: notification_handler_def get_uint_8_def GSP_RESP_COMMAND_RESPONSE_def)

section \<open>The resource path of a GET\<close>

text \<open>
  C6 at \<open>get_status\<close>: the GET of \<open>/Mem/DataLogger/State\<close> that it builds is the opcode, the
  reference 101 and the 21 bytes of the path; its last byte is the \<open>e\<close> of \<open>State\<close>, not
  NUL. \<open>get_resource\<close> sends the same path with the NUL that is missing here.
\<close>

theorem get_status_get_path_not_nul_terminated:
  "dlstate_command
     = [4, 101, 47, 77, 101, 109, 47, 68, 97, 116, 97, 76, 111, 103, 103, 101, 114, 47,
        83, 116, 97, 116, 101]
   \<and> last dlstate_command \<noteq> 0
   \<and> get_resource_command ''/Mem/DataLogger/State'' = dlstate_command [1 := 105] @ [0]"
  by (simp add: dlstate_command_def get_resource_command_def encode_def GSP_CMD_GET_def)


section \<open>Erasing the memory from the command line\<close>








lemma strip_examples:
  "strip (codepoints ''  YES'' @ [160]) = codepoints ''YES''"
  "strip (codepoints ''no'') = codepoints ''no''"
  "strip (codepoints ''n'') = codepoints ''n''"
  "strip (codepoints '' No'') = codepoints ''No''"
  by (simp_all add: strip_def isspace_def codepoints_def)

lemma ascii_lower_examples:
  "ascii_lower (ascii_lower (codepoints ''YES'')) = codepoints ''yes''"
  "ascii_lower (ascii_lower (codepoints ''no'')) = codepoints ''no''"
  "ascii_lower (ascii_lower (codepoints ''n'')) = codepoints ''n''"
  "ascii_lower (ascii_lower (codepoints ''No'')) = codepoints ''no''"
  by (simp_all add: ascii_lower_def codepoints_def)


lemma run_serials_declined:
  assumes "length serials \<le> length (stdin w)"
      and "\<forall>line \<in> set (take (length serials) (stdin w)).
             lower (lower (strip line)) \<notin> set [codepoints ''yes'', codepoints ''y'']"
  shows "run_serials (\<lambda>serial. erasemem_command lower serial False) serials w
           = ([], w\<lparr>stdin := drop (length serials) (stdin w)\<rparr>)"
  using assms
proof (induction serials arbitrary: w)
  case Nil
  then show ?case by simp
next
  case (Cons serial serials)
  then obtain line later where l: "stdin w = line # later" by (cases "stdin w") auto
  with Cons.prems
  have d: "lower (lower (strip line)) \<notin> set [codepoints ''yes'', codepoints ''y'']"
    by simp
  have e: "erasemem_command lower serial False w = (Inr True, w\<lparr>stdin := later\<rparr>)"
    using l d by (simp add: erasemem_command_def Let_def)
  have "run_serials (\<lambda>serial. erasemem_command lower serial False) serials
          (w\<lparr>stdin := later\<rparr>)
          = ([], w\<lparr>stdin := later\<rparr>
                  \<lparr>stdin := drop (length serials) (stdin (w\<lparr>stdin := later\<rparr>))\<rparr>)"
    using Cons.prems l by (intro Cons.IH) auto
  then show ?case using e l by simp
qed

text \<open>
  C10. When the lines typed at the prompts all decline (stripped and lower-cased as the
  code does it, none is \<open>yes\<close> or \<open>y\<close>), every device's \<open>erasemem_command\<close> returns \<open>True\<close>
  having consumed its line and nothing else, and \<open>all_sensors_command\<close> ends after one
  pass with no serial left to retry: each device was prompted once. This holds whatever
  function \<open>str.lower\<close> is.
\<close>

theorem declined_erase_not_retried:
  assumes "length serials \<le> length (stdin w)"
      and "\<forall>line \<in> set (take (length serials) (stdin w)).
             lower (lower (strip line)) \<notin> set [codepoints ''yes'', codepoints ''y'']"
  shows "(\<forall>i < length serials.
            erasemem_command lower (serials ! i) False (w\<lparr>stdin := drop i (stdin w)\<rparr>)
              = (Inr True, w\<lparr>stdin := drop (Suc i) (stdin w)\<rparr>))
         \<and> all_sensors_command (\<lambda>serial. erasemem_command lower serial False) serials retrys w
              = ([], w\<lparr>stdin := drop (length serials) (stdin w)\<rparr>)"
proof
  show "\<forall>i < length serials.
            erasemem_command lower (serials ! i) False (w\<lparr>stdin := drop i (stdin w)\<rparr>)
              = (Inr True, w\<lparr>stdin := drop (Suc i) (stdin w)\<rparr>)"
  proof (intro allI impI)
    fix i assume i: "i < length serials"
    with assms(1) have il: "i < length (stdin w)" by simp
    then have dr: "drop i (stdin w) = stdin w ! i # drop (Suc i) (stdin w)"
      by (simp add: Cons_nth_drop_Suc)
    have "stdin w ! i \<in> set (take (length serials) (stdin w))"
      using i il by (metis in_set_conv_nth length_take min_less_iff_conj nth_take)
    with assms(2)
    have "lower (lower (strip (stdin w ! i))) \<notin> set [codepoints ''yes'', codepoints ''y'']"
      by blast
    then show "erasemem_command lower (serials ! i) False (w\<lparr>stdin := drop i (stdin w)\<rparr>)
              = (Inr True, w\<lparr>stdin := drop (Suc i) (stdin w)\<rparr>)"
      using dr by (simp add: erasemem_command_def Let_def)
  qed
  show "all_sensors_command (\<lambda>serial. erasemem_command lower serial False) serials retrys w
              = ([], w\<lparr>stdin := drop (length serials) (stdin w)\<rparr>)"
    using run_serials_declined [OF assms]
    by (simp add: all_sensors_command_def all_sensors_loop.simps [of _ retrys 0])
qed

text \<open>The theorem for two devices and the answers \<open>n\<close> and \<open>No\<close>.\<close>

theorem declined_erase_not_retried_witness:
  "erasemem_command ascii_lower ''000455'' False
     (idle_world\<lparr>stdin := [codepoints ''n'', codepoints '' No'']\<rparr>)
     = (Inr True, idle_world\<lparr>stdin := [codepoints '' No'']\<rparr>)
   \<and> all_sensors_command (\<lambda>serial. erasemem_command ascii_lower serial False)
        [''000455'', ''000456''] 10
        (idle_world\<lparr>stdin := [codepoints ''n'', codepoints '' No'']\<rparr>)
     = ([], idle_world\<lparr>stdin := []\<rparr>)"
proof -
  let ?w = "idle_world\<lparr>stdin := [codepoints ''n'', codepoints '' No'']\<rparr>"
  let ?serials = "[''000455'', ''000456'']"
  have h1: "length ?serials \<le> length (stdin ?w)" by simp
  have "codepoints ''n'' \<notin> set [codepoints ''yes'', codepoints ''y'']"
    and "codepoints ''no'' \<notin> set [codepoints ''yes'', codepoints ''y'']"
    by (simp_all add: codepoints_def)
  then have h2: "\<forall>line \<in> set (take (length ?serials) (stdin ?w)).
              ascii_lower (ascii_lower (strip line))
                \<notin> set [codepoints ''yes'', codepoints ''y'']"
    by (simp add: strip_examples ascii_lower_examples)
  note t = declined_erase_not_retried [OF h1 h2, of 10]
  have "0 < length ?serials" by simp
  with t have "erasemem_command ascii_lower (?serials ! 0) False
                 (?w\<lparr>stdin := drop 0 (stdin ?w)\<rparr>)
              = (Inr True, ?w\<lparr>stdin := drop (Suc 0) (stdin ?w)\<rparr>)" by blast
  with t show ?thesis by simp
qed

section \<open>The exit status\<close>

text \<open>
  C9, as the code has it. The exit status does not depend on what the devices did: it is
  1 when no sub-command or no serial list was given, and 0 otherwise, also when serials
  still fail after the last retry.
\<close>

theorem main_exit_status:
  "fst (main lower a w)
     = (if args_command a = None \<or> args_serial_numbers a = None then 1 else 0)"
  by (auto simp: main_def Let_def split: option.splits prod.splits)

text \<open>
  C9 as the specification words it fails where no device is in range: \<open>start\<close> for the
  serial 000455 fails on every one of the eleven passes, the serial is still failing at the
  end, and the exit status is 0. (\<open>start\<close> does not call \<open>str.lower\<close>; any function
  can stand for it.)
\<close>

theorem exit_status_zero_after_failure_counterexample:
  "fst (all_sensors_command start_command [''000455''] 10 idle_world) = [''000455'']
   \<and> fst (main ascii_lower
            \<lparr>args_command = Some Start, args_serial_numbers = Some [''000455''],
                 args_output = None, args_force = False\<rparr> idle_world) = 0"
  by code_simp



section \<open>The streaming loop and the file\<close>

lemma notify_hello_ref: "hello_ref (notify data w) = hello_ref w"
  by (simp add: notify_def split: option.splits)

lemma fold_notify_queue:
  "fold notify batch w =
     w\<lparr>response_queue := response_queue w @ List.map_filter (notification_handler (hello_ref w)) batch\<rparr>"
proof (induction batch arbitrary: w)
  case Nil
  show ?case by (simp add: List.map_filter_simps)
next
  case (Cons data batch)
  have "fold notify (data # batch) w = fold notify batch (notify data w)" by simp
  also have "\<dots> = (notify data w)\<lparr>response_queue := response_queue (notify data w)
                 @ List.map_filter (notification_handler (hello_ref w)) batch\<rparr>"
    using Cons [of "notify data w"] by (simp only: notify_hello_ref)
  also have "\<dots> = w\<lparr>response_queue := response_queue w
                 @ List.map_filter (notification_handler (hello_ref w)) (data # batch)\<rparr>"
    by (cases "notification_handler (hello_ref w) data")
       (simp_all add: notify_def [of data w] List.map_filter_simps)
  finally show ?case .
qed

lemma send_command_arrivals:
  assumes "is_connected w"
  shows "send_command c w =
     (case arrivals w of
        [] \<Rightarrow> (Inl CommandTimeout, (after_write c w)\<lparr>response_queue := []\<rparr>)
      | r # q \<Rightarrow> (Inr r, (after_write c w)\<lparr>response_queue := q\<rparr>))"
  using assms
  by (cases "peer w")
     (auto simp: send_command_def write_gatt_char_def Let_def arrivals_def after_write_def
                 fold_notify_queue List.map_filter_simps split: list.splits)

lemma get_uint_32_payload:
  "4 \<le> length (payload r) \<Longrightarrow> get_uint_32 (payload r) 0 = Some (frame_offset r)"
  by (simp add: get_uint_32_def frame_offset_def numeral_2_eq_2 numeral_3_eq_3)

lemma received_Cons:
  "received (r # q) = (if ends_stream r then [r] else r # received q)"
  by (simp add: received_def)

lemma fetch_loop_eq:
  "fetch_loop q f last_offset =
     (replay (writes q) f, last (last_offset # offsets_seen q), None, drop (length (received q)) q)"
proof (induction q arbitrary: f last_offset)
  case Nil
  show ?case by (simp add: replay_def writes_def offsets_seen_def received_def)
next
  case (Cons r q)
  show ?case
  proof (cases "is_data r")
    case False
    then show ?thesis
      using Cons [of f last_offset]
      by (simp add: is_data_def ends_stream_def writes_def offsets_seen_def received_Cons)
  next
    case True
    then have rc: "response_code r = GSP_RESP_DATA \<or> response_code r = GSP_RESP_DATA_PART2"
      by (simp add: is_data_def)
    consider (short) "length (payload r) < 4" | (empty) "length (payload r) = 4"
      | (full) "4 < length (payload r)" by linarith
    then show ?thesis
    proof cases
      case short
      then show ?thesis using True rc
        by (auto simp: ends_stream_def writes_def offsets_seen_def received_Cons replay_def
                       payload_def)
    next
      case empty
      then show ?thesis using True rc get_uint_32_payload [of r]
        by (auto simp: ends_stream_def writes_def offsets_seen_def received_Cons replay_def
                       payload_def)
    next
      case full
      then show ?thesis using True rc get_uint_32_payload [of r]
          Cons [of "file_write f (frame_offset r) (frame_bytes r)" "frame_offset r"]
        by (auto simp: ends_stream_def writes_def offsets_seen_def received_Cons replay_def
                       payload_def frame_bytes_def Let_def)
    qed
  qed
qed

lemma length_file_write:
  "length (file_write f offset bs) = max (length f) (offset + length bs)"
  by (auto simp: file_write_def)

lemma nth_file_write:
  assumes "i < max (length f) (offset + length bs)"
  shows "file_write f offset bs ! i =
           (if offset \<le> i \<and> i < offset + length bs then bs ! (i - offset)
            else if i < length f then f ! i else 0)"
proof -
  define padded where "padded = f @ replicate (offset - length f) 0"
  define pre where "pre = take offset padded"
  define post where "post = drop (offset + length bs) f"
  have fw: "file_write f offset bs = pre @ bs @ post"
    by (simp add: file_write_def pre_def post_def padded_def)
  have lp: "length pre = offset"
    by (auto simp: pre_def padded_def)
  consider (before) "i < offset" | (inside) "offset \<le> i" "i < offset + length bs"
    | (after) "offset + length bs \<le> i" by linarith
  then show ?thesis
  proof cases
    case before
    have "(pre @ bs @ post) ! i = pre ! i"
      using before lp by (simp add: nth_append)
    also have "\<dots> = padded ! i"
      unfolding pre_def using before by (rule nth_take)
    also have "\<dots> = (if i < length f then f ! i else 0)"
      using before by (cases "i < length f") (simp_all add: padded_def nth_append)
    finally show ?thesis using before fw by simp
  next
    case inside
    then have "\<not> i < length pre" and "i - length pre < length bs"
      using lp by arith+
    then have "(pre @ bs @ post) ! i = bs ! (i - offset)"
      using lp by (simp add: nth_append)
    then show ?thesis using inside fw by simp
  next
    case after
    with assms have il: "i < length f" by simp
    have "\<not> i < length pre" and "\<not> i - length pre < length bs"
      using after lp by arith+
    then have "(pre @ bs @ post) ! i = post ! (i - offset - length bs)"
      using lp by (simp add: nth_append)
    also have "\<dots> = f ! i"
      using after il by (simp add: post_def)
    finally show ?thesis using after il fw by simp
  qed
qed

lemma extent_snoc: "extent (ws @ [(offset, bs)]) = max (offset + length bs) (extent ws)"
  by (simp add: extent_def)

lemma extent_bound: "(offset, bs) \<in> set ws \<Longrightarrow> offset + length bs \<le> extent ws"
proof (induction ws rule: rev_induct)
  case Nil
  then show ?case by simp
next
  case (snoc x ws)
  then show ?case by (cases x) (auto simp: extent_snoc)
qed

lemma written_at_beyond:
  "\<forall>(offset, bs) \<in> set ws. offset + length bs \<le> i \<Longrightarrow> written_at ws i = 0"
  by (induction ws) auto

lemma last_written_beyond: "extent ws \<le> i \<Longrightarrow> last_written ws i = 0"
  unfolding last_written_def
  by (rule written_at_beyond) (auto dest: extent_bound)

lemma replay_snoc: "replay (ws @ [(offset, bs)]) f = file_write (replay ws f) offset bs"
  by (simp add: replay_def)

lemma replay_file:
  "length (replay ws []) = extent ws \<and> (\<forall>i < extent ws. replay ws [] ! i = last_written ws i)"
proof (induction ws rule: rev_induct)
  case Nil
  show ?case by (simp add: replay_def extent_def)
next
  case (snoc x ws)
  obtain offset bs where x: "x = (offset, bs)" by (cases x)
  let ?f = "replay ws []"
  have len: "length ?f = extent ws" and old: "\<And>i. i < extent ws \<Longrightarrow> ?f ! i = last_written ws i"
    using snoc by auto
  have l: "length (replay (ws @ [x]) []) = extent (ws @ [x])"
    by (simp add: x replay_snoc length_file_write extent_snoc len max.commute)
  have "replay (ws @ [x]) [] ! i = last_written (ws @ [x]) i" if "i < extent (ws @ [x])" for i
  proof -
    have "i < max (length ?f) (offset + length bs)"
      using that by (simp add: x extent_snoc len max.commute)
    then have "replay (ws @ [x]) [] ! i =
                 (if offset \<le> i \<and> i < offset + length bs then bs ! (i - offset)
                  else if i < length ?f then ?f ! i else 0)"
      by (simp add: x replay_snoc nth_file_write)
    also have "\<dots> = last_written (ws @ [x]) i"
      using old [of i] last_written_beyond [of ws i]
      by (auto simp: x last_written_def len)
    finally show ?thesis .
  qed
  with l show ?case by blast
qed

lemma fetch_data_success:
  assumes "is_connected w" and "to_bytes log_id 4 = Some lb" and "arrivals w = r0 # q"
      and "response_code r0 = GSP_RESP_COMMAND_RESPONSE" and "get_status_code r0 = PyInt 200"
  shows "SensorCommand_fetch_data log_id output_file w =
     (Inr (empty_result\<lparr>success := True,
             filename := Some (fetch_filename log_id output_file (device_name w)),
             res_size := Some (last (0 # offsets_seen q)),
             res_log_id := Some log_id\<rparr>),
      (after_write (fetch_command_bytes lb) w)
        \<lparr>response_queue := drop (length (received q)) q,
         files := (files w)(fetch_filename log_id output_file (device_name w)
                             := Some (replay (writes q) []))\<rparr>)"
  using assms
  by (simp add: SensorCommand_fetch_data_def send_command_arrivals fetch_loop_eq after_write_def
                Let_def)

lemmas scenario_defs = sensor_with_def idle_world_def ok_response_def data_packet_def
  end_packet_def not_found_response_def encode_def

lemmas codec_defs = arrivals_def List.map_filter_simps notification_handler_def get_uint_8_def
  get_uint_16_def gsp_defs Let_def

lemmas stream_defs = writes_def offsets_seen_def received_def ends_stream_def is_data_def
  payload_def frame_offset_def frame_bytes_def

lemma upt_4: "[0..<4] = [0, 1, 2, 3]"
  by code_simp

lemma to_bytes_1: "to_bytes 1 4 = Some [1, 0, 0, 0]"
  by (simp add: to_bytes_def upt_4)

lemma str_nat_1: "str_nat (Suc 0) = ''1''"
  by code_simp

lemma sensor_with_connected: "is_connected (sensor_with script)"
  by (simp add: sensor_with_def idle_world_def)

lemma log_1_name:
  "fetch_filename 1 None (device_name (sensor_with script)) = ''log_1_Movesense 000455.sbem''"
  by (simp add: fetch_filename_def default_filename_def str_nat_1 sensor_with_def idle_world_def)

lemma log_Suc_0_name:
  "fetch_filename (Suc 0) None (device_name (sensor_with script))
     = ''log_1_Movesense 000455.sbem''"
  using log_1_name by simp

lemma arrivals_test_log:
  "arrivals (sensor_with [[ok_response 101, data_packet, end_packet]]) =
     [\<lparr>response_code = 1, reference = 101, raw_data = ok_response 101,
        status_code = Some (PyInt 200), command_data = Some [], data_payload = None\<rparr>,
      \<lparr>response_code = 2, reference = 101, raw_data = data_packet,
        status_code = None, command_data = None,
        data_payload = Some (0 # 0 # 0 # 0 # encode ''test data'' @ [0])\<rparr>,
      \<lparr>response_code = 2, reference = 101, raw_data = end_packet,
        status_code = None, command_data = None, data_payload = Some [9, 0, 0, 0]\<rparr>]"
  by (simp add: scenario_defs codec_defs)

lemma test_log_stream:
  fixes q
  defines "q \<equiv> [\<lparr>response_code = 2, reference = 101, raw_data = data_packet,
        status_code = None, command_data = None,
        data_payload = Some (0 # 0 # 0 # 0 # encode ''test data'' @ [0])\<rparr>,
      \<lparr>response_code = 2, reference = 101, raw_data = end_packet,
        status_code = None, command_data = None, data_payload = Some [9, 0, 0, 0]\<rparr>]"
  shows "writes q = [(0, encode ''test data'' @ [0])]" and "offsets_seen q = [0, 9]"
  by (simp_all add: q_def stream_defs gsp_defs encode_def)

lemma test_log_file:
  "replay [(0, encode ''test data'' @ [0])] [] = encode ''test data'' @ [0]"
  "extent [(0, encode ''test data'' @ [0])] = 10"
  "last_written [(0, encode ''test data'' @ [0])] 0 = 116"
  "last_written [(0, encode ''test data'' @ [0])] 9 = 0"
  by (simp_all add: replay_def file_write_def extent_def last_written_def encode_def)

lemma ok_response_is_ok:
  "response_code \<lparr>response_code = 1, reference = rf, raw_data = d,
          status_code = Some (PyInt 200), command_data = Some [], data_payload = None\<rparr>
        = GSP_RESP_COMMAND_RESPONSE"
  "get_status_code \<lparr>response_code = 1, reference = rf, raw_data = d,
          status_code = Some (PyInt 200), command_data = Some [], data_payload = None\<rparr>
        = PyInt 200"
  by (simp_all add: GSP_RESP_COMMAND_RESPONSE_def get_status_code_def)

text \<open>
  C1, as the code has it. When FETCH\_LOG is answered with status 200, \<open>fetch_data\<close>
  returns success; the file it leaves has as many bytes as the highest
  \<open>offset + length bytes\<close> among the frames written, and each of its bytes is the one most
  recently written at that position (zero where no frame wrote). The reported size is the
  offset of the last data frame that carried an offset (0 when there was none); it is not
  the byte count.
\<close>

theorem fetched_file_and_size:
  assumes "is_connected w" and "to_bytes log_id 4 = Some lb" and "arrivals w = r0 # q"
      and "response_code r0 = GSP_RESP_COMMAND_RESPONSE" and "get_status_code r0 = PyInt 200"
  shows "\<exists>f w'. SensorCommand_fetch_data log_id output_file w =
            (Inr (empty_result\<lparr>success := True,
                    filename := Some (fetch_filename log_id output_file (device_name w)),
                    res_size := Some (last (0 # offsets_seen q)),
                    res_log_id := Some log_id\<rparr>), w')
          \<and> files w' (fetch_filename log_id output_file (device_name w)) = Some f
          \<and> length f = extent (writes q)
          \<and> (\<forall>i < length f. f ! i = last_written (writes q) i)"
  using fetch_data_success [OF assms, of output_file] replay_file [of "writes q"]
  by simp

text \<open>The theorem at the three notifications of the mock device.\<close>

theorem fetched_file_and_size_witness:
  "\<exists>f w'. SensorCommand_fetch_data 1 None
              (sensor_with [[ok_response 101, data_packet, end_packet]])
            = (Inr (empty_result\<lparr>success := True,
                      filename := Some ''log_1_Movesense 000455.sbem'',
                      res_size := Some 9, res_log_id := Some 1\<rparr>), w')
          \<and> files w' ''log_1_Movesense 000455.sbem'' = Some f
          \<and> length f = 10 \<and> f ! 0 = 116 \<and> f ! 9 = 0"
proof -
  note t = fetched_file_and_size [OF sensor_with_connected to_bytes_1 arrivals_test_log,
      of None, unfolded log_1_name test_log_stream test_log_file]
  have "response_code \<lparr>response_code = 1, reference = 101, raw_data = ok_response 101,
          status_code = Some (PyInt 200), command_data = Some [], data_payload = None\<rparr>
        = GSP_RESP_COMMAND_RESPONSE"
    and "get_status_code \<lparr>response_code = 1, reference = 101, raw_data = ok_response 101,
          status_code = Some (PyInt 200), command_data = Some [], data_payload = None\<rparr>
        = PyInt 200"
    by (simp_all add: GSP_RESP_COMMAND_RESPONSE_def get_status_code_def)
  from t [OF this] obtain f w' where
    r: "SensorCommand_fetch_data 1 None
          (sensor_with [[ok_response 101, data_packet, end_packet]])
        = (Inr (empty_result\<lparr>success := True,
                  filename := Some ''log_1_Movesense 000455.sbem'',
                  res_size := Some 9, res_log_id := Some 1\<rparr>), w')"
    and f: "files w' ''log_1_Movesense 000455.sbem'' = Some f"
    and l: "length f = 10"
    and c: "\<forall>i < length f. f ! i = last_written [(0, encode ''test data'' @ [0])] i"
    by auto
  from c l have "f ! 0 = 116" and "f ! 9 = 0"
    by (simp_all add: test_log_file)
  with r f l show ?thesis by blast
qed

text \<open>
  C1 as the specification words it fails at the same three notifications: the file has
  10 bytes, which is the highest \<open>offset + length bytes\<close>, and the reported size is 9.
\<close>

theorem reported_size_is_last_offset_counterexample:
  "map_sum id res_size
     (fst (SensorCommand_fetch_data 1 None
             (sensor_with [[ok_response 101, data_packet, end_packet]]))) = Inr (Some 9)
   \<and> map_option length
       (files (snd (SensorCommand_fetch_data 1 None
                      (sensor_with [[ok_response 101, data_packet, end_packet]])))
          ''log_1_Movesense 000455.sbem'') = Some 10
   \<and> extent (writes (tl (arrivals (sensor_with [[ok_response 101, data_packet, end_packet]]))))
       = 10"
  unfolding fetch_data_success [OF sensor_with_connected to_bytes_1 arrivals_test_log
      ok_response_is_ok, of None] arrivals_test_log list.sel log_1_name test_log_stream
    test_log_file
  by (simp add: empty_result_def encode_def)

section \<open>A data frame before the command response\<close>

text \<open>
  C2, as the code has it. When the first notification queued after FETCH\_LOG was written
  is not a command response (a data frame that ran ahead of it), \<open>fetch_data\<close> takes it
  for the response and returns the error "Unexpected response to FETCH\_LOG command"; no
  file is opened, so that frame's payload reaches no sink. Whatever was queued when the
  command was issued (\<open>pending\<close>) is dropped and plays no part.
\<close>

theorem early_data_frame_fails_fetch:
  assumes "is_connected w" and "to_bytes log_id 4 = Some lb" and "arrivals w = r0 # q"
      and "response_code r0 \<noteq> GSP_RESP_COMMAND_RESPONSE"
  shows "SensorCommand_fetch_data log_id output_file (w\<lparr>response_queue := pending\<rparr>) =
     (Inr (failure (UnexpectedFetchResponse (response_code r0))),
      (after_write (fetch_command_bytes lb) w)\<lparr>response_queue := q\<rparr>)"
proof -
  have "arrivals (w\<lparr>response_queue := pending\<rparr>) = r0 # q"
    using assms(3) by (cases "peer w") (simp_all add: arrivals_def)
  then show ?thesis using assms(1,2,4)
    by (simp add: SensorCommand_fetch_data_def send_command_arrivals after_write_def Let_def)
qed

lemma arrivals_early:
  "arrivals (sensor_with [[data_packet, ok_response 101, end_packet]]) =
     [\<lparr>response_code = 2, reference = 101, raw_data = data_packet,
        status_code = None, command_data = None,
        data_payload = Some (0 # 0 # 0 # 0 # encode ''test data'' @ [0])\<rparr>,
      \<lparr>response_code = 1, reference = 101, raw_data = ok_response 101,
        status_code = Some (PyInt 200), command_data = Some [], data_payload = None\<rparr>,
      \<lparr>response_code = 2, reference = 101, raw_data = end_packet,
        status_code = None, command_data = None, data_payload = Some [9, 0, 0, 0]\<rparr>]"
  by (simp add: scenario_defs codec_defs)

lemma data_frame_is_no_response:
  "response_code \<lparr>response_code = 2, reference = rf, raw_data = d, status_code = s,
                   command_data = c, data_payload = p\<rparr> \<noteq> GSP_RESP_COMMAND_RESPONSE"
  by (simp add: GSP_RESP_COMMAND_RESPONSE_def)

text \<open>
  The theorem where the data packet of the mock device arrives before the 200 response,
  with a frame already pending.
\<close>

theorem early_data_frame_fails_fetch_witness:
  "fst (SensorCommand_fetch_data 1 None
          ((sensor_with [[data_packet, ok_response 101, end_packet]])
             \<lparr>response_queue := arrivals (sensor_with [[data_packet]])\<rparr>))
     = Inr (failure (UnexpectedFetchResponse 2))
   \<and> files (snd (SensorCommand_fetch_data 1 None
          ((sensor_with [[data_packet, ok_response 101, end_packet]])
             \<lparr>response_queue := arrivals (sensor_with [[data_packet]])\<rparr>)))
       ''log_1_Movesense 000455.sbem'' = None
   \<and> wire (snd (SensorCommand_fetch_data 1 None
          ((sensor_with [[data_packet, ok_response 101, end_packet]])
             \<lparr>response_queue := arrivals (sensor_with [[data_packet]])\<rparr>)))
       = [[3, 101, 1, 0, 0, 0]]"
  using early_data_frame_fails_fetch [OF sensor_with_connected to_bytes_1 arrivals_early
          data_frame_is_no_response, of None "arrivals (sensor_with [[data_packet]])"]
  by (simp add: after_write_def fetch_command_bytes_def GSP_CMD_FETCH_LOG_def sensor_with_def
                idle_world_def)

lemma early_data_frame_run:
  "SensorCommand_fetch_data 1 None (sensor_with [[data_packet, ok_response 101, end_packet]])
     = (Inr (failure (UnexpectedFetchResponse 2)),
        (after_write (fetch_command_bytes [1, 0, 0, 0])
           (sensor_with [[data_packet, ok_response 101, end_packet]]))
          \<lparr>response_queue := tl (arrivals (sensor_with [[data_packet, ok_response 101, end_packet]]))\<rparr>)"
  using to_bytes_1 sensor_with_connected [of "[[data_packet, ok_response 101, end_packet]]"]
  by (simp add: SensorCommand_fetch_data_def send_command_arrivals arrivals_early Let_def
                GSP_RESP_COMMAND_RESPONSE_def)

text \<open>
  C2 as the specification words it fails there: the fetch returns the error and the file
  does not exist.
\<close>

theorem early_data_frame_counterexample:
  "fst (SensorCommand_fetch_data 1 None
          (sensor_with [[data_packet, ok_response 101, end_packet]]))
     = Inr (failure (UnexpectedFetchResponse 2))
   \<and> files (snd (SensorCommand_fetch_data 1 None
          (sensor_with [[data_packet, ok_response 101, end_packet]])))
       ''log_1_Movesense 000455.sbem'' = None"
  using early_data_frame_run
  by (simp add: after_write_def sensor_with_def idle_world_def)

section \<open>A fetch that is refused\<close>

text \<open>
  C3, as the code has it. When the command response to FETCH\_LOG carries a status other
  than 200, \<open>fetch_data\<close> of the sensor returns a failure result with that status and an
  error text, for 404 as for any other status; it opens no file and reads no data frame.
  The loop over the logs in datalogger\_tool.py stops at that result; it reports the
  status through \<open>logging.error\<close> unless it is 404. Then PUT\_SYSTEMMODE follows, and if the
  device answers it, the tool's \<open>fetch_data\<close> reports success with the files fetched so
  far, for 404 as for any other status; if the device does not answer, the timeout is
  raised.
\<close>

theorem fetch_failure_status:
  assumes "is_connected w" and "to_bytes log_id 4 = Some lb" and "arrivals w = r0 # q"
      and "response_code r0 = GSP_RESP_COMMAND_RESPONSE" and "get_status_code r0 = st"
      and "st \<noteq> PyInt 200"
  shows "(let w1 = (after_write (fetch_command_bytes lb) w)\<lparr>response_queue := q\<rparr>;
              w2 = (if st = PyInt 404 then w1
                    else w1\<lparr>errors_logged := errors_logged w @ [st]\<rparr>)
          in SensorCommand_fetch_data log_id output_file w
               = (Inr ((failure (FetchFailed st))\<lparr>res_status_code := Some st\<rparr>), w1)
             \<and> fetch_logs serial args_out output_dir log_id fetched w = (Inr fetched, w2)
             \<and> (fetch_logs serial args_out output_dir 1 [] start
                   = fetch_logs serial args_out output_dir log_id fetched w
                 \<longrightarrow> fetch_body serial args_out output_dir start
                   = (case arrivals w2 of
                        [] \<Rightarrow> (Inl CommandTimeout,
                               (after_write system_mode_command w2)\<lparr>response_queue := []\<rparr>)
                      | r # later \<Rightarrow>
                          (Inr (empty_result\<lparr>success := True,
                                              files_fetched := Some fetched\<rparr>),
                           (after_write system_mode_command w2)\<lparr>response_queue := later\<rparr>))))"
proof -
  define w1 where "w1 = (after_write (fetch_command_bytes lb) w)\<lparr>response_queue := q\<rparr>"
  define w2 where "w2 = (if st = PyInt 404 then w1
                         else w1\<lparr>errors_logged := errors_logged w @ [st]\<rparr>)"
  have one: "SensorCommand_fetch_data log_id output_file w
               = (Inr ((failure (FetchFailed st))\<lparr>res_status_code := Some st\<rparr>), w1)"
    for output_file
    using assms
    by (simp add: SensorCommand_fetch_data_def send_command_arrivals Let_def w1_def)
  have two: "fetch_logs serial args_out output_dir log_id fetched w = (Inr fetched, w2)"
    by (subst fetch_logs.simps)
       (simp add: one failure_def empty_result_def log_fetch_failure_def w2_def w1_def
                  after_write_def)
  have conn: "is_connected w2"
    using assms(1) by (simp add: w2_def w1_def after_write_def)
  have three: "fetch_body serial args_out output_dir start
                 = (case arrivals w2 of
                      [] \<Rightarrow> (Inl CommandTimeout,
                             (after_write system_mode_command w2)\<lparr>response_queue := []\<rparr>)
                    | r # later \<Rightarrow>
                        (Inr (empty_result\<lparr>success := True, files_fetched := Some fetched\<rparr>),
                         (after_write system_mode_command w2)\<lparr>response_queue := later\<rparr>))"
    if "fetch_logs serial args_out output_dir 1 [] start
          = fetch_logs serial args_out output_dir log_id fetched w"
    using that two conn
    by (simp add: fetch_body_def set_system_mode_def simple_command_def send_command_arrivals
                  system_mode_command_def split: list.splits)
  from one two three show ?thesis
    unfolding Let_def w2_def w1_def by blast
qed

lemma arrivals_refused:
  "arrivals (sensor_with ([not_found_response] # script)) =
     [\<lparr>response_code = 1, reference = 101, raw_data = not_found_response,
        status_code = Some (PyInt 404), command_data = Some [], data_payload = None\<rparr>]"
  "arrivals (sensor_with ([unauthorized_response] # script)) =
     [\<lparr>response_code = 1, reference = 101, raw_data = unauthorized_response,
        status_code = Some (PyInt 401), command_data = Some [], data_payload = None\<rparr>]"
  by (simp_all add: scenario_defs unauthorized_response_def codec_defs)

lemma refused_status:
  "response_code \<lparr>response_code = 1, reference = rf, raw_data = d,
          status_code = Some st, command_data = c, data_payload = p\<rparr>
        = GSP_RESP_COMMAND_RESPONSE"
  "get_status_code \<lparr>response_code = 1, reference = rf, raw_data = d,
          status_code = Some st, command_data = c, data_payload = p\<rparr> = st"
  by (simp_all add: GSP_RESP_COMMAND_RESPONSE_def get_status_code_def)

lemma arrivals_next:
  "arrivals ((after_write c (sensor_with (batch # script)))\<lparr>response_queue := q\<rparr>)
     = arrivals (sensor_with script)"
  "arrivals ((after_write c (sensor_with (batch # script)))
               \<lparr>response_queue := q, errors_logged := l\<rparr>)
     = arrivals (sensor_with script)"
  by (cases script; simp add: arrivals_def after_write_def sensor_with_def idle_world_def)+

lemma after_write_simps:
  "errors_logged (after_write c w) = errors_logged w"
  "files (after_write c w) = files w"
  "wire (after_write c w) = wire w @ [c]"
  "is_connected (after_write c w) = is_connected w"
  by (simp_all add: after_write_def)

lemma arrivals_mode_ok:
  "arrivals (sensor_with [[ok_response 107]]) =
     [\<lparr>response_code = 1, reference = 107, raw_data = ok_response 107,
        status_code = Some (PyInt 200), command_data = Some [], data_payload = None\<rparr>]"
  by (simp add: scenario_defs codec_defs)

text \<open>The theorem at the responses 404 and 401 to the first FETCH\_LOG.\<close>

theorem fetch_failure_status_witness:
  "fst (SensorCommand_fetch_data 1 None (sensor_with [[not_found_response], [ok_response 107]]))
     = Inr ((failure (FetchFailed (PyInt 404)))\<lparr>res_status_code := Some (PyInt 404)\<rparr>)
   \<and> fst (fetch_body ''000455'' None None
            (sensor_with [[not_found_response], [ok_response 107]]))
     = Inr (empty_result\<lparr>success := True, files_fetched := Some []\<rparr>)
   \<and> errors_logged (snd (fetch_body ''000455'' None None
            (sensor_with [[not_found_response], [ok_response 107]]))) = []
   \<and> fst (fetch_body ''000455'' None None
            (sensor_with [[unauthorized_response], [ok_response 107]]))
     = Inr (empty_result\<lparr>success := True, files_fetched := Some []\<rparr>)
   \<and> errors_logged (snd (fetch_body ''000455'' None None
            (sensor_with [[unauthorized_response], [ok_response 107]]))) = [PyInt 401]"
proof -
  have ne: "PyInt 404 \<noteq> PyInt 200" "PyInt 401 \<noteq> PyInt 200" by simp_all
  note nf = fetch_failure_status [OF sensor_with_connected to_bytes_1
      arrivals_refused(1) [of "[[ok_response 107]]"] refused_status ne(1), of None "''000455''" None None "[]"
      "sensor_with [[not_found_response], [ok_response 107]]",
      unfolded Let_def]
  note ua = fetch_failure_status [OF sensor_with_connected to_bytes_1
      arrivals_refused(2) [of "[[ok_response 107]]"] refused_status ne(2), of None "''000455''" None None "[]"
      "sensor_with [[unauthorized_response], [ok_response 107]]",
      unfolded Let_def]
  have l: "errors_logged (sensor_with script) = []" for script
    by (simp add: sensor_with_def idle_world_def)
  from nf have
    "fst (SensorCommand_fetch_data 1 None (sensor_with [[not_found_response], [ok_response 107]]))
       = Inr ((failure (FetchFailed (PyInt 404)))\<lparr>res_status_code := Some (PyInt 404)\<rparr>)"
    and "fst (fetch_body ''000455'' None None
            (sensor_with [[not_found_response], [ok_response 107]]))
       = Inr (empty_result\<lparr>success := True, files_fetched := Some []\<rparr>)"
    and "errors_logged (snd (fetch_body ''000455'' None None
            (sensor_with [[not_found_response], [ok_response 107]]))) = []"
    by (simp_all add: arrivals_next arrivals_mode_ok after_write_simps l)
  moreover from ua have
    "fst (fetch_body ''000455'' None None
            (sensor_with [[unauthorized_response], [ok_response 107]]))
       = Inr (empty_result\<lparr>success := True, files_fetched := Some []\<rparr>)"
    and "errors_logged (snd (fetch_body ''000455'' None None
            (sensor_with [[unauthorized_response], [ok_response 107]]))) = [PyInt 401]"
    by (simp_all add: arrivals_next arrivals_mode_ok after_write_simps l)
  ultimately show ?thesis by simp
qed

lemma not_found_run:
  "SensorCommand_fetch_data 1 None (sensor_with [[not_found_response], [ok_response 107]])
     = (Inr ((failure (FetchFailed (PyInt 404)))\<lparr>res_status_code := Some (PyInt 404)\<rparr>),
        (after_write (fetch_command_bytes [1, 0, 0, 0])
           (sensor_with [[not_found_response], [ok_response 107]]))\<lparr>response_queue := []\<rparr>)"
  using to_bytes_1 sensor_with_connected [of "[[not_found_response], [ok_response 107]]"]
  by (simp add: SensorCommand_fetch_data_def send_command_arrivals arrivals_refused Let_def
                get_status_code_def GSP_RESP_COMMAND_RESPONSE_def)

text \<open>
  C3 as the specification words it fails at the response 404: what \<open>fetch_data\<close> returns
  is a failure (\<open>success\<close> false) that carries an error.
\<close>

theorem not_found_is_failure_counterexample:
  "map_sum id success
     (fst (SensorCommand_fetch_data 1 None
             (sensor_with [[not_found_response], [ok_response 107]]))) = Inr False
   \<and> map_sum id error
     (fst (SensorCommand_fetch_data 1 None
             (sensor_with [[not_found_response], [ok_response 107]])))
     = Inr (Some (FetchFailed (PyInt 404)))"
  using not_found_run by (simp add: failure_def empty_result_def)

section \<open>A stream that goes silent\<close>

lemma arrivals_silent:
  "arrivals (sensor_with [[ok_response 101, data_packet]]) =
     [\<lparr>response_code = 1, reference = 101, raw_data = ok_response 101,
        status_code = Some (PyInt 200), command_data = Some [], data_payload = None\<rparr>,
      \<lparr>response_code = 2, reference = 101, raw_data = data_packet,
        status_code = None, command_data = None,
        data_payload = Some (0 # 0 # 0 # 0 # encode ''test data'' @ [0])\<rparr>]"
  by (simp add: scenario_defs codec_defs)

lemma silent_stream:
  fixes q
  defines "q \<equiv> [\<lparr>response_code = 2, reference = 101, raw_data = data_packet,
        status_code = None, command_data = None,
        data_payload = Some (0 # 0 # 0 # 0 # encode ''test data'' @ [0])\<rparr>]"
  shows "list_all (\<lambda>r. \<not> ends_stream r) q"
    and "map frame_offset (filter is_data q) = [0]"
    and "map (\<lambda>r. (frame_offset r, frame_bytes r)) (filter is_data q)
           = [(0, encode ''test data'' @ [0])]"
    and "writes q = [(0, encode ''test data'' @ [0])]"
    and "offsets_seen q = [0]"
  by (simp_all add: q_def stream_defs gsp_defs encode_def)

text \<open>
  C4, as the code has it. When FETCH\_LOG is answered with status 200 and no frame that
  ends the stream arrives before the queue stays empty for 30 s, the loop is left through
  the timeout and \<open>fetch_data\<close> returns success: the result names the file, which holds
  everything written so far, and gives the last offset seen as size; it carries no error.
\<close>

theorem fetch_timeout_is_success:
  assumes "is_connected w" and "to_bytes log_id 4 = Some lb" and "arrivals w = r0 # q"
      and "response_code r0 = GSP_RESP_COMMAND_RESPONSE" and "get_status_code r0 = PyInt 200"
      and "list_all (\<lambda>r. \<not> ends_stream r) q"
  shows "SensorCommand_fetch_data log_id output_file w =
     (Inr (empty_result\<lparr>success := True,
             filename := Some (fetch_filename log_id output_file (device_name w)),
             res_size := Some (last (0 # map frame_offset (filter is_data q))),
             res_log_id := Some log_id\<rparr>),
      (after_write (fetch_command_bytes lb) w)
        \<lparr>response_queue := [],
         files := (files w)(fetch_filename log_id output_file (device_name w)
                    := Some (replay (map (\<lambda>r. (frame_offset r, frame_bytes r)) (filter is_data q)) []))\<rparr>)"
proof -
  have all: "\<forall>r \<in> set q. \<not> ends_stream r" using assms(6) by (simp add: list_all_iff)
  then have tw: "takeWhile (\<lambda>r. \<not> ends_stream r) q = q" and dw: "dropWhile (\<lambda>r. \<not> ends_stream r) q = []"
    by auto
  have rec: "received q = q" by (simp add: received_def tw dw)
  have "filter (\<lambda>r. is_data r \<and> 4 \<le> length (payload r)) q = filter is_data q"
    using all by (intro filter_cong) (auto simp: ends_stream_def)
  then have "offsets_seen q = map frame_offset (filter is_data q)"
    by (simp add: offsets_seen_def rec)
  moreover have "writes q = map (\<lambda>r. (frame_offset r, frame_bytes r)) (filter is_data q)"
    by (simp add: writes_def tw)
  ultimately show ?thesis
    using fetch_data_success [OF assms(1-5), of output_file] by (simp add: rec)
qed

text \<open>The theorem where only the 200 response and the data packet arrive.\<close>

theorem fetch_timeout_is_success_witness:
  "fst (SensorCommand_fetch_data 1 None (sensor_with [[ok_response 101, data_packet]]))
     = Inr (empty_result\<lparr>success := True, filename := Some ''log_1_Movesense 000455.sbem'',
              res_size := Some 0, res_log_id := Some 1\<rparr>)
   \<and> files (snd (SensorCommand_fetch_data 1 None (sensor_with [[ok_response 101, data_packet]])))
        ''log_1_Movesense 000455.sbem'' = Some (encode ''test data'' @ [0])"
  using fetch_timeout_is_success [OF sensor_with_connected to_bytes_1 arrivals_silent
          ok_response_is_ok silent_stream(1), of None, unfolded log_1_name silent_stream
          test_log_file]
  by simp

text \<open>
  C4 as the specification words it fails there: the result of the fetch that timed out
  has \<open>success\<close> true and no error.
\<close>

theorem fetch_timeout_counterexample:
  "map_sum id success
     (fst (SensorCommand_fetch_data 1 None (sensor_with [[ok_response 101, data_packet]])))
     = Inr True
   \<and> map_sum id error
     (fst (SensorCommand_fetch_data 1 None (sensor_with [[ok_response 101, data_packet]])))
     = Inr None"
  unfolding fetch_data_success [OF sensor_with_connected to_bytes_1 arrivals_silent
      ok_response_is_ok, of None]
  by (simp add: empty_result_def)

section \<open>Configuring twice\<close>

lemma upt_8: "[0..<8] = [0, 1, 2, 3, 4, 5, 6, 7]"
  by code_simp

lemma to_bytes_0: "to_bytes 0 8 = Some [0, 0, 0, 0, 0, 0, 0, 0]"
  by (simp add: to_bytes_def upt_8)

lemma ok_response_queued:
  "notification_handler None (ok_response rf) =
     Some \<lparr>response_code = 1, reference = unat rf, raw_data = ok_response rf,
           status_code = Some (PyInt 200), command_data = Some [], data_payload = None\<rparr>"
  by (simp add: ok_response_def codec_defs)

lemma config_command_run:
  assumes "radio w = Present name [[ok_response 108], [ok_response 102]] # later"
      and "name \<noteq> []" and "endswith name serial" and "clock w = 0"
      and "args_path w = Some ps" and "ps \<noteq> []"
  shows "config_command serial w =
     (Inr True,
      w\<lparr>radio := later, args_path := Some (ps @ [TIME_DETAILED]),
        wire := wire w @ [utc_command,
                          [GSP_CMD_PUT_DATALOGGER_CONFIG, 102] @ config_bytes (ps @ [TIME_DETAILED])],
        is_connected := False, hello_ref := None, response_queue := [],
        device_name := name, peer := []\<rparr>)"
  using assms
  by (simp add: config_command_def configure_device_def catch_all_def with_sensor_def
        discover_and_connect_def fresh_sensor_def set_utc_time_def to_bytes_0
        simple_command_def send_command_def write_gatt_char_def notify_def
        ok_response_queued command_result_def get_status_code_def
        GSP_RESP_COMMAND_RESPONSE_def configure_body_def truthy_def
        SensorCommand_configure_device_def utc_command_def empty_result_def Let_def)

text \<open>
  C7 at \<open>config -s 000455 000456 -p /Meas/ECG/200/mV\<close>: both devices answer 200, and the
  payloads of the two PUT\_DATALOGGER\_CONFIG commands differ. The second carries
  \<open>/Time/Detailed\<close> twice, since the first call appended it to the list of \<open>args.path\<close>
  itself. (\<open>config\<close> does not call \<open>str.lower\<close>; any function can stand for it.)
\<close>

theorem configure_twice_repeats_implicit_path:
  "map (drop 2)
     (filter (\<lambda>c. take 1 c = [GSP_CMD_PUT_DATALOGGER_CONFIG])
        (wire (snd (main ascii_lower \<lparr>args_command = Some Config,
                           args_serial_numbers = Some [''000455'', ''000456''],
                           args_output = None, args_force = False\<rparr>
                      two_devices_to_configure))))
   = [encode ''/Meas/ECG/200/mV'' @ [0] @ encode ''/Time/Detailed'' @ [0],
      encode ''/Meas/ECG/200/mV'' @ [0] @ encode ''/Time/Detailed'' @ [0]
        @ encode ''/Time/Detailed'' @ [0]]"
proof -
  let ?w0 = two_devices_to_configure
  obtain w1 where
    c1: "config_command ''000455'' ?w0 = (Inr True, w1)"
    and w1: "radio w1 = [Present ''Movesense 000456'' [[ok_response 108], [ok_response 102]]]"
            "clock w1 = 0" "args_path w1 = Some [''/Meas/ECG/200/mV'', TIME_DETAILED]"
            "wire w1 = [utc_command, [GSP_CMD_PUT_DATALOGGER_CONFIG, 102]
                          @ config_bytes [''/Meas/ECG/200/mV'', TIME_DETAILED]]"
    using config_command_run [of ?w0 "''Movesense 000455''" _ "''000455''" "[''/Meas/ECG/200/mV'']"]
    by (simp add: two_devices_to_configure_def idle_world_def endswith_def)
  obtain w2 where
    c2: "config_command ''000456'' w1 = (Inr True, w2)"
    and w2: "wire w2 = [utc_command,
                        [GSP_CMD_PUT_DATALOGGER_CONFIG, 102]
                          @ config_bytes [''/Meas/ECG/200/mV'', TIME_DETAILED],
                        utc_command,
                        [GSP_CMD_PUT_DATALOGGER_CONFIG, 102]
                          @ config_bytes [''/Meas/ECG/200/mV'', TIME_DETAILED, TIME_DETAILED]]"
    using config_command_run [of w1 "''Movesense 000456''" "[]" "''000456''"
            "[''/Meas/ECG/200/mV'', TIME_DETAILED]"] w1
    by (simp add: endswith_def)
  have "snd (main ascii_lower \<lparr>args_command = Some Config,
                   args_serial_numbers = Some [''000455'', ''000456''],
                   args_output = None, args_force = False\<rparr> ?w0) = w2"
    using c1 c2
    by (simp add: main_def commands_def all_sensors_command_def
                  all_sensors_loop.simps [of _ 10 0])
  then show ?thesis
    by (simp add: w2 utc_command_def gsp_defs config_bytes_def TIME_DETAILED_def)
qed


end
